theory Spec2Isabelle
  imports Main "HOL-Library.Char_ord" "HOL-Library.List_Lexorder" "HOL-Library.Sublist"
begin

section \<open>Paths\<close>

text \<open>
  A \<^verbatim>\<open>pathlib.PosixPath\<close>: whether it starts at the root, and its components.
  \<^verbatim>\<open>Path('/a/b')\<close> is \<open>PosixPath True [''a'', ''b'']\<close>, \<^verbatim>\<open>Path('a/b')\<close> is
  \<open>PosixPath False [''a'', ''b'']\<close>, \<^verbatim>\<open>Path('.')\<close> is \<open>PosixPath False []\<close>.
\<close>

datatype posix_path = PosixPath (anchored: bool) (parts: "string list")

text \<open>
  Paths compare as Python compares their \<^verbatim>\<open>parts\<close> tuples: component by component,
  each component as a string, an absolute path having \<^verbatim>\<open>'/'\<close> as its first part.
\<close>

definition cparts :: "posix_path \<Rightarrow> string list" where
  "cparts p = (if anchored p then [''/''] else []) @ parts p"

definition sorted_paths :: "posix_path list \<Rightarrow> posix_path list" where
  "sorted_paths ps = sort_key cparts ps"

fun split_on :: "char \<Rightarrow> string \<Rightarrow> string list" where
  "split_on c [] = [[]]"
| "split_on c (x # xs) =
     (if x = c then [] # split_on c xs
      else (case split_on c xs of
              w # ws \<Rightarrow> (x # w) # ws
            | [] \<Rightarrow> [[x]]))"

text \<open>The components of a path written as text: empty and \<^verbatim>\<open>.\<close> components drop out.\<close>

definition parse_parts :: "string \<Rightarrow> string list" where
  "parse_parts s = filter (\<lambda>w. w \<noteq> [] \<and> w \<noteq> ''.'') (split_on (CHR ''/'') s)"

text \<open>\<^verbatim>\<open>p / s\<close> for a string \<open>s\<close>: an absolute \<open>s\<close> replaces \<open>p\<close>.\<close>

definition joinpath :: "posix_path \<Rightarrow> string \<Rightarrow> posix_path" where
  "joinpath p s =
     (if s \<noteq> [] \<and> hd s = CHR ''/'' then PosixPath True (parse_parts s)
      else PosixPath (anchored p) (parts p @ parse_parts s))"

text \<open>\<^verbatim>\<open>p.parent\<close>: the root and the empty path are their own parents.\<close>

definition parent :: "posix_path \<Rightarrow> posix_path" where
  "parent p = PosixPath (anchored p) (butlast (parts p))"

definition join_with :: "string \<Rightarrow> string list \<Rightarrow> string" where
  "join_with sep ws = (case ws of [] \<Rightarrow> [] | w # rest \<Rightarrow> w @ concat (map (\<lambda>v. sep @ v) rest))"

text \<open>
  \<^verbatim>\<open>str(p)\<close>, and \<^verbatim>\<open>repr\<close> of a string, of a path and of a list of paths.
  \<^verbatim>\<open>repr\<close> of a string puts it in single quotes, or in double quotes when it has a
  single quote and no double quote; it escapes the backslash, the quote in use and the
  control characters. Characters beyond ASCII are taken as printable text and kept.
\<close>

definition str_path :: "posix_path \<Rightarrow> string" where
  "str_path p =
     (if anchored p then ''/'' @ join_with ''/'' (parts p)
      else if parts p = [] then ''.'' else join_with ''/'' (parts p))"

definition hex_digit :: "nat \<Rightarrow> char" where
  "hex_digit d = ''0123456789abcdef'' ! d"

definition repr_char :: "char \<Rightarrow> char \<Rightarrow> string" where
  "repr_char quote c =
     (if c = quote \<or> c = CHR 0x5C then [CHR 0x5C, c]
      else if c = CHR 0x09 then [CHR 0x5C, CHR ''t'']
      else if c = CHR 0x0A then [CHR 0x5C, CHR ''n'']
      else if c = CHR 0x0D then [CHR 0x5C, CHR ''r'']
      else if of_char c < (32 :: nat) \<or> of_char c = (127 :: nat) then
        [CHR 0x5C, CHR ''x'', hex_digit (of_char c div 16), hex_digit (of_char c mod 16)]
      else [c])"

definition repr_str :: "string \<Rightarrow> string" where
  "repr_str s =
     (let quote = (if CHR 0x27 \<in> set s \<and> CHR 0x22 \<notin> set s then CHR 0x22 else CHR 0x27)
      in [quote] @ concat (map (repr_char quote) s) @ [quote])"

definition repr_path :: "posix_path \<Rightarrow> string" where
  "repr_path p = ''PosixPath('' @ repr_str (str_path p) @ '')''"

definition repr_path_list :: "posix_path list \<Rightarrow> string" where
  "repr_path_list ps = ''['' @ join_with '', '' (map repr_path ps) @ '']''"


section \<open>Formatting integers\<close>

definition digit_char :: "nat \<Rightarrow> char" where
  "digit_char d = ''0123456789'' ! d"

fun digits :: "nat \<Rightarrow> string" where
  "digits n = (if n < 10 then [digit_char n] else digits (n div 10) @ [digit_char (n mod 10)])"

declare digits.simps [simp del]

text \<open>\<^verbatim>\<open>str(n)\<close>, as \<^verbatim>\<open>{n}\<close> in an f-string writes an integer.\<close>

definition str_int :: "int \<Rightarrow> string" where
  "str_int n = (if n < 0 then ''-'' @ digits (nat (- n)) else digits (nat n))"

definition zfill :: "nat \<Rightarrow> string \<Rightarrow> string" where
  "zfill w s = replicate (w - length s) (CHR ''0'') @ s"

text \<open>\<^verbatim>\<open>{n:0wd}\<close>: zero padding to width \<open>w\<close>, the sign counted in the width.\<close>

definition format_0d :: "nat \<Rightarrow> int \<Rightarrow> string" where
  "format_0d w n =
     (if n < 0 then ''-'' @ zfill (w - 1) (digits (nat (- n))) else zfill w (digits (nat n)))"

section \<open>Exceptions\<close>

text \<open>
  An exception is its class and its argument. \<^verbatim>\<open>IOError\<close> is the name the lookups
  raise under (in Python 3 an alias of \<^verbatim>\<open>OSError\<close>); the classes below it are the
  ones the operating system calls raise.
\<close>

datatype error =
    ValueError string
  | IOError string
  | RuntimeError string
  | NotImplementedError string
  | IndexError string
  | FileExistsError posix_path
  | FileNotFoundError posix_path
  | NotADirectoryError posix_path
  | IsADirectoryError posix_path
  | OSError posix_path

definition and_then :: "error + 'a \<Rightarrow> ('a \<Rightarrow> error + 'b) \<Rightarrow> error + 'b" where
  "and_then r f = (case r of Inl e \<Rightarrow> Inl e | Inr x \<Rightarrow> f x)"

section \<open>The filesystem\<close>

text \<open>
  What a canonical absolute path (its list of components; \<open>[]\<close> is the root, always a
  directory) names: a regular file, a directory, or a symbolic link with the path it
  stores. A stored link path is kept as written: it may be relative and may contain
  empty components (a trailing slash), \<^verbatim>\<open>.\<close> and \<^verbatim>\<open>..\<close>.
\<close>

datatype node = File | Dir | Link posix_path

datatype syscall = Unlink "string list" | Symlink "string list" posix_path

text \<open>
  The state the code runs in. \<open>maxlinks\<close> is the number of symbolic links the
  kernel follows in one path lookup before it gives up (40 on Linux). \<open>scan\<close> is
  what \<^verbatim>\<open>Path.glob\<close> yields for a directory and a pattern it accepts, in the order
  of the directory scan; the lookups only read it, so it is given with the state and
  not computed from \<open>nodes\<close>. \<open>journal\<close> records the mutating calls made so far.
\<close>

record filesystem =
  nodes :: "string list \<Rightarrow> node option"
  cwd :: "string list"
  homes :: "string \<Rightarrow> string list option"
  maxlinks :: nat
  scan :: "posix_path \<Rightarrow> string \<Rightarrow> posix_path list"
  journal :: "syscall list"

datatype errno = ENOENT | ENOTDIR | ELOOP

text \<open>
  Path resolution as the kernel does it for \<^verbatim>\<open>stat\<close>, from the canonical directory
  \<open>d\<close> through the remaining components: a link is replaced by the path it stores,
  every component must exist, and no more than \<open>n\<close> links are followed.
\<close>

fun walk :: "(string list \<Rightarrow> node option) \<Rightarrow> nat \<Rightarrow> string list \<Rightarrow> string list
    \<Rightarrow> errno + string list" where
  "walk ns n d [] = Inr d"
| "walk ns n d (c # cs) =
     (if c = [] \<or> c = ''.'' then walk ns n d cs
      else if c = ''..'' then walk ns n (butlast d) cs
      else (case ns (d @ [c]) of
              Some (Link t) \<Rightarrow>
                (case n of
                   0 \<Rightarrow> Inl ELOOP
                 | Suc m \<Rightarrow> walk ns m (if anchored t then [] else d) (parts t @ cs))
            | Some Dir \<Rightarrow> walk ns n (d @ [c]) cs
            | Some File \<Rightarrow> if cs \<noteq> [] then Inl ENOTDIR else walk ns n (d @ [c]) cs
            | None \<Rightarrow> Inl ENOENT))"

definition start_dir :: "filesystem \<Rightarrow> posix_path \<Rightarrow> string list" where
  "start_dir fs p = (if anchored p then [] else cwd fs)"

definition node_at :: "filesystem \<Rightarrow> string list \<Rightarrow> node option" where
  "node_at fs q = (if q = [] then Some Dir else nodes fs q)"

text \<open>\<^verbatim>\<open>p.exists()\<close>: \<^verbatim>\<open>stat\<close> succeeds; links are followed, so a dangling link does not exist.\<close>

definition exists :: "filesystem \<Rightarrow> posix_path \<Rightarrow> bool" where
  "exists fs p =
     (case walk (nodes fs) (maxlinks fs) (start_dir fs p) (parts p) of
        Inl _ \<Rightarrow> False
      | Inr _ \<Rightarrow> True)"

text \<open>\<^verbatim>\<open>p.is_dir()\<close>.\<close>

definition is_dir :: "filesystem \<Rightarrow> posix_path \<Rightarrow> bool" where
  "is_dir fs p =
     (case walk (nodes fs) (maxlinks fs) (start_dir fs p) (parts p) of
        Inl _ \<Rightarrow> False
      | Inr q \<Rightarrow> node_at fs q = Some Dir)"

text \<open>
  Path resolution as \<^verbatim>\<open>Path.resolve()\<close> does it: links are followed however many
  there are, and missing components are kept as written. On a loop of links the
  resolution never ends, which is the value \<open>None\<close>.
\<close>

partial_function (option) realpath ::
    "(string list \<Rightarrow> node option) \<Rightarrow> string list \<Rightarrow> string list \<Rightarrow> string list option" where
  "realpath ns d cs =
     (case cs of
        [] \<Rightarrow> Some d
      | c # rest \<Rightarrow>
          if c = [] \<or> c = ''.'' then realpath ns d rest
          else if c = ''..'' then realpath ns (butlast d) rest
          else (case ns (d @ [c]) of
                  Some (Link t) \<Rightarrow> realpath ns (if anchored t then [] else d) (parts t @ rest)
                | _ \<Rightarrow> realpath ns (d @ [c]) rest))"

text \<open>
  \<^verbatim>\<open>p.resolve()\<close>: the canonical absolute path; a loop of links raises
  \<^verbatim>\<open>RuntimeError\<close> (its message names the link of the loop, which is left out here).
\<close>

definition resolve :: "filesystem \<Rightarrow> posix_path \<Rightarrow> error + posix_path" where
  "resolve fs p =
     (case realpath (nodes fs) (start_dir fs p) (parts p) of
        None \<Rightarrow> Inl (RuntimeError ''Symlink loop'')
      | Some q \<Rightarrow> Inr (PosixPath True q))"

text \<open>\<^verbatim>\<open>p.expanduser()\<close>.\<close>

definition expanduser :: "filesystem \<Rightarrow> posix_path \<Rightarrow> error + posix_path" where
  "expanduser fs p =
     (case parts p of
        [] \<Rightarrow> Inr p
      | c # cs \<Rightarrow>
          if \<not> anchored p \<and> take 1 c = ''~'' then
            (case homes fs (drop 1 c) of
               None \<Rightarrow> Inl (RuntimeError ''Could not determine home directory.'')
             | Some h \<Rightarrow> Inr (PosixPath True (h @ cs)))
          else Inr p)"

definition oserror :: "errno \<Rightarrow> posix_path \<Rightarrow> error" where
  "oserror e p =
     (case e of
        ENOENT \<Rightarrow> FileNotFoundError p
      | ENOTDIR \<Rightarrow> NotADirectoryError p
      | ELOOP \<Rightarrow> OSError p)"

text \<open>
  The directory entry a path names, its last component not followed (as
  \<^verbatim>\<open>unlink\<close> and \<^verbatim>\<open>symlink\<close> read a path): the directory part is resolved
  strictly and must be a directory.
\<close>

definition entry_of :: "filesystem \<Rightarrow> posix_path \<Rightarrow> error + string list" where
  "entry_of fs p =
     (if parts p = [] \<or> last (parts p) \<in> {[], ''.'', ''..''} then
        (case walk (nodes fs) (maxlinks fs) (start_dir fs p) (parts p) of
           Inl e \<Rightarrow> Inl (oserror e p)
         | Inr q \<Rightarrow> Inr q)
      else
        (case walk (nodes fs) (maxlinks fs) (start_dir fs p) (butlast (parts p)) of
           Inl e \<Rightarrow> Inl (oserror e p)
         | Inr q \<Rightarrow>
             if node_at fs q = Some Dir then Inr (q @ [last (parts p)])
             else Inl (NotADirectoryError p)))"

text \<open>\<^verbatim>\<open>p.unlink()\<close>: removes a file or a link, never a directory.\<close>

definition unlink :: "filesystem \<Rightarrow> posix_path \<Rightarrow> error + filesystem" where
  "unlink fs p =
     and_then (entry_of fs p) (\<lambda>q.
       case node_at fs q of
         None \<Rightarrow> Inl (FileNotFoundError p)
       | Some Dir \<Rightarrow> Inl (IsADirectoryError p)
       | Some _ \<Rightarrow>
           Inr (fs\<lparr>nodes := (nodes fs)(q := None), journal := journal fs @ [Unlink q]\<rparr>))"

text \<open>\<^verbatim>\<open>p.symlink_to(target)\<close>: fails when the path is already taken.\<close>

definition symlink_to :: "filesystem \<Rightarrow> posix_path \<Rightarrow> posix_path \<Rightarrow> error + filesystem" where
  "symlink_to fs p target =
     and_then (entry_of fs p) (\<lambda>q.
       case node_at fs q of
         Some _ \<Rightarrow> Inl (FileExistsError p)
       | None \<Rightarrow>
           Inr (fs\<lparr>nodes := (nodes fs)(q \<mapsto> Link target),
                   journal := journal fs @ [Symlink q target]\<rparr>))"

text \<open>
  Canonical paths. \<open>no_links ns d cs\<close>: going from \<open>d\<close> through \<open>cs\<close> meets no link and
  no empty, \<^verbatim>\<open>.\<close> or \<^verbatim>\<open>..\<close> component. \<open>real_dirs ns d cs\<close>: moreover every step is
  an existing directory.
\<close>

definition special :: "string \<Rightarrow> bool" where
  "special c = (c = [] \<or> c = ''.'' \<or> c = ''..'')"

definition is_link :: "node option \<Rightarrow> bool" where
  "is_link x = (case x of Some (Link t) \<Rightarrow> True | _ \<Rightarrow> False)"

fun no_links :: "(string list \<Rightarrow> node option) \<Rightarrow> string list \<Rightarrow> string list \<Rightarrow> bool" where
  "no_links ns d [] = True"
| "no_links ns d (c # cs) = (\<not> special c \<and> \<not> is_link (ns (d @ [c])) \<and> no_links ns (d @ [c]) cs)"

fun real_dirs :: "(string list \<Rightarrow> node option) \<Rightarrow> string list \<Rightarrow> string list \<Rightarrow> bool" where
  "real_dirs ns d [] = True"
| "real_dirs ns d (c # cs) = (\<not> special c \<and> ns (d @ [c]) = Some Dir \<and> real_dirs ns (d @ [c]) cs)"


text \<open>
  \<^verbatim>\<open>Path.glob\<close> and \<^verbatim>\<open>Path.rglob\<close>. The pattern is checked before anything is
  scanned: an empty pattern, a pattern that starts at the root, a pattern without
  components, and \<^verbatim>\<open>**\<close> inside a component are refused. \<^verbatim>\<open>rglob\<close> is \<^verbatim>\<open>glob\<close>
  under \<^verbatim>\<open>**/\<close>.
\<close>

fun has_two_stars :: "string \<Rightarrow> bool" where
  "has_two_stars (a # b # cs) = ((a = CHR ''*'' \<and> b = CHR ''*'') \<or> has_two_stars (b # cs))"
| "has_two_stars cs = False"

definition make_selector :: "string list \<Rightarrow> error option" where
  "make_selector pattern_parts =
     (if pattern_parts = [] then Some (IndexError ''tuple index out of range'')
      else if list_ex (\<lambda>pat. pat \<noteq> ''**'' \<and> has_two_stars pat) pattern_parts then
        Some (ValueError ''Invalid pattern: '**' can only be an entire path component'')
      else None)"

definition glob :: "filesystem \<Rightarrow> posix_path \<Rightarrow> string \<Rightarrow> error + posix_path list" where
  "glob fs d pattern =
     (if pattern = [] then Inl (ValueError (''Unacceptable pattern: '' @ [CHR 0x27, CHR 0x27]))
      else if hd pattern = CHR ''/'' then
        Inl (NotImplementedError ''Non-relative patterns are unsupported'')
      else (case make_selector (parse_parts pattern) of
              Some e \<Rightarrow> Inl e
            | None \<Rightarrow> Inr (scan fs d pattern)))"

definition rglob :: "filesystem \<Rightarrow> posix_path \<Rightarrow> string \<Rightarrow> error + posix_path list" where
  "rglob fs d pattern =
     (if pattern \<noteq> [] \<and> hd pattern = CHR ''/'' then
        Inl (NotImplementedError ''Non-relative patterns are unsupported'')
      else (case make_selector (''**'' # parse_parts pattern) of
              Some e \<Rightarrow> Inl e
            | None \<Rightarrow> Inr (scan fs d (''**/'' @ pattern))))"

section \<open>\<^verbatim>\<open>lstchain/onsite.py\<close>\<close>

definition DEFAULT_BASE_PATH :: posix_path where
  "DEFAULT_BASE_PATH = PosixPath True [''fefs'', ''aswg'', ''data'', ''real'']"

definition DEFAULT_R0_PATH :: posix_path where
  "DEFAULT_R0_PATH = joinpath DEFAULT_BASE_PATH ''R0''"

text \<open>The pro link is removed when it points elsewhere, and made when there is none.\<close>

definition create_pro_symlink :: "filesystem \<Rightarrow> posix_path \<Rightarrow> error + filesystem" where
  "create_pro_symlink fs output_dir0 =
     and_then (expanduser fs output_dir0) (\<lambda>expanded.
     and_then (resolve fs expanded) (\<lambda>output_dir.
       let pro_dir = joinpath (parent output_dir) ''pro'' in
       and_then
         (if exists fs pro_dir then
            and_then (resolve fs pro_dir) (\<lambda>a.
            and_then (resolve fs output_dir) (\<lambda>b.
              if a \<noteq> b then unlink fs pro_dir else Inr fs))
          else Inr fs)
         (\<lambda>fs1. if \<not> exists fs1 pro_dir then symlink_to fs1 pro_dir output_dir else Inr fs1)))"

definition find_r0_subrun :: "filesystem \<Rightarrow> int \<Rightarrow> int \<Rightarrow> posix_path \<Rightarrow> error + posix_path" where
  "find_r0_subrun fs run sub_run r0_dir =
     and_then (rglob fs r0_dir
         (''LST-1.1.Run'' @ format_0d 5 run @ ''.'' @ format_0d 4 sub_run @ ''*.fits.fz''))
       (\<lambda>matches.
          let file_list = sorted_paths matches
          in if length file_list = 0 then
               Inl (IOError (''Run '' @ str_int run @ '' not found'' @ [CHR 0x0A]))
             else Inr (file_list ! 0))"

definition ped_dir :: "posix_path \<Rightarrow> posix_path" where
  "ped_dir base_dir = joinpath base_dir ''monitoring/PixelCalibration/LevelA/drs4_baseline''"

definition find_pedestal_file ::
    "filesystem \<Rightarrow> string \<Rightarrow> int option \<Rightarrow> string option \<Rightarrow> posix_path \<Rightarrow> error + posix_path" where
  "find_pedestal_file fs pro pedestal_run date base_dir =
     (case (pedestal_run, date) of
        (None, None) \<Rightarrow> Inl (ValueError ''Must give at least `date` or `run`'')
      | (Some r, _) \<Rightarrow>
          and_then (rglob fs (ped_dir base_dir)
              (pro @ ''/drs4_pedestal.Run'' @ format_0d 5 r @ ''.0000.h5''))
            (\<lambda>matches.
               let file_list = sorted_paths matches
               in if length file_list = 0 then
                    Inl (IOError (''Pedestal file from run '' @ str_int r @ '' not found''
                           @ [CHR 0x0A]))
                  else resolve fs (file_list ! 0))
      | (None, Some d) \<Rightarrow>
          and_then (glob fs (joinpath (joinpath (ped_dir base_dir) d) pro)
              ''drs4_pedestal*.0000.h5'')
            (\<lambda>matches.
               let file_list = sorted_paths matches
               in if length file_list = 0 then
                    Inl (IOError (''No pedestal file found for date '' @ d))
                  else if length file_list > 1 then
                    Inl (IOError (''Too many pedestal files found for date '' @ d @ '': ''
                           @ repr_path_list file_list @ '', choose one run'' @ [CHR 0x0A]))
                  else resolve fs (file_list ! 0)))"

definition find_run_summary :: "filesystem \<Rightarrow> string \<Rightarrow> posix_path \<Rightarrow> error + posix_path" where
  "find_run_summary fs date base_dir =
     (let run_summary_path = joinpath base_dir (''monitoring/RunSummary/RunSummary_'' @ date @ ''.ecsv'')
      in if \<not> exists fs run_summary_path then
           Inl (IOError (''Night summary file '' @ str_path run_summary_path
                  @ '' does not exist'' @ [CHR 0x0A]))
         else Inr run_summary_path)"

text \<open>
  What \<^verbatim>\<open>parse_calibration_name\<close> of \<^verbatim>\<open>lstchain/paths.py\<close> returns; only its
  \<^verbatim>\<open>run\<close> field is read here.
\<close>

record Run =
  run :: int

text \<open>
  The loop over the sorted candidates: the answer so far is replaced while the
  candidate's run is at most \<open>run\<close>; the first candidate beyond it ends the loop.
  \<^verbatim>\<open>parse_calibration_name\<close> is a parameter; what it raises is raised.
\<close>

fun last_time_file ::
    "filesystem \<Rightarrow> (posix_path \<Rightarrow> error + Run) \<Rightarrow> int \<Rightarrow> posix_path option \<Rightarrow> posix_path list
      \<Rightarrow> error + posix_path option" where
  "last_time_file fs parse_calibration_name target time_file [] = Inr time_file"
| "last_time_file fs parse_calibration_name target time_file (path # rest) =
     and_then (parse_calibration_name path) (\<lambda>run_in_list.
       if run run_in_list \<le> target then
         and_then (resolve fs path) (\<lambda>resolved.
           last_time_file fs parse_calibration_name target (Some resolved) rest)
       else Inr time_file)"

definition time_dir :: "posix_path \<Rightarrow> posix_path" where
  "time_dir base_dir =
     joinpath base_dir ''monitoring/PixelCalibration/LevelA/drs4_time_sampling_from_FF''"

definition find_time_calibration_file ::
    "filesystem \<Rightarrow> (posix_path \<Rightarrow> error + Run) \<Rightarrow> string \<Rightarrow> int \<Rightarrow> int option \<Rightarrow> posix_path
      \<Rightarrow> error + posix_path" where
  "find_time_calibration_file fs parse_calibration_name pro target time_run base_dir =
     (case time_run of
        None \<Rightarrow>
          and_then (rglob fs (time_dir base_dir)
              (''*/'' @ pro @ ''/time_calibration.Run*.0000.h5''))
            (\<lambda>matches.
               let file_list = sorted_paths matches
               in if length file_list = 0 then
                    Inl (IOError (''No time calibration file found in the data tree for prod ''
                           @ pro @ [CHR 0x0A]))
                  else
                    and_then (last_time_file fs parse_calibration_name target None file_list)
                      (\<lambda>time_file.
                         case time_file of
                           None \<Rightarrow>
                             Inl (IOError (''No time calibration file found before run ''
                                    @ str_int target @ '' for prod '' @ pro @ [CHR 0x0A]))
                         | Some f \<Rightarrow> Inr f))
      | Some t \<Rightarrow>
          and_then (rglob fs (time_dir base_dir)
              (''*/'' @ pro @ ''/time_calibration.Run'' @ format_0d 5 t @ ''.0000.h5''))
            (\<lambda>matches.
               let file_list = sorted_paths matches
               in if length file_list = 0 then
                    Inl (IOError (''Time calibration file from run '' @ str_int t
                           @ '' not found'' @ [CHR 0x0A]))
                  else resolve fs (file_list ! 0)))"

section \<open>An example tree\<close>

text \<open>
  Modelled from the spec: \<^verbatim>\<open>parse_calibration_name\<close> of \<^verbatim>\<open>lstchain/paths.py\<close>,
  which is not among the sources. The run number is the decimal number after
  \<^verbatim>\<open>Run\<close> in the file name (\<^verbatim>\<open>time_calibration.Run00123.0000.h5\<close> is run 123); a
  name without one is refused. It stands for the parameter where a concrete tree is
  evaluated.
\<close>

definition is_digit :: "char \<Rightarrow> bool" where
  "is_digit c = (CHR ''0'' \<le> c \<and> c \<le> CHR ''9'')"

definition int_of_digits :: "string \<Rightarrow> int" where
  "int_of_digits s = foldl (\<lambda>n c. 10 * n + (of_char c - 48)) 0 s"

definition run_from_name :: "posix_path \<Rightarrow> error + Run" where
  "run_from_name p =
     (case filter (\<lambda>f. take 3 f = ''Run'' \<and> drop 3 f \<noteq> [] \<and> list_all is_digit (drop 3 f))
             (if parts p = [] then [] else split_on (CHR ''.'') (last (parts p))) of
        [] \<Rightarrow> Inl (ValueError (''Filename '' @ str_path p @ '' does not match pattern''))
      | f # _ \<Rightarrow> Inr \<lparr>run = int_of_digits (drop 3 f)\<rparr>)"

text \<open>A tree of regular files: every proper prefix of a file is a directory.\<close>

definition tree_of :: "string list list \<Rightarrow> string list \<Rightarrow> node option" where
  "tree_of files q =
     (if q \<in> set files then Some File
      else if list_ex (\<lambda>f. length q < length f \<and> take (length q) f = q) files then Some Dir
      else None)"

definition level_a :: "string list" where
  "level_a = [''data'', ''monitoring'', ''PixelCalibration'', ''LevelA'']"

definition baseline :: "string \<Rightarrow> string \<Rightarrow> string \<Rightarrow> posix_path" where
  "baseline date pro name = PosixPath True (level_a @ [''drs4_baseline'', date, pro, name])"

definition sampling :: "string \<Rightarrow> string \<Rightarrow> string \<Rightarrow> posix_path" where
  "sampling date pro name =
     PosixPath True (level_a @ [''drs4_time_sampling_from_FF'', date, pro, name])"

text \<open>
  Pedestal files: run 100 under two dates, runs 105 and 106 under one date, run 107
  alone under its date. Time calibration files of production \<^verbatim>\<open>v1\<close> at runs 100, 105
  and 110, each under its date; of production \<^verbatim>\<open>v2\<close> at runs 99999 and 100000 under
  one date.
\<close>

definition example_files :: "posix_path list" where
  "example_files =
     [baseline ''20200101'' ''v1'' ''drs4_pedestal.Run00100.0000.h5'',
      baseline ''20200102'' ''v1'' ''drs4_pedestal.Run00106.0000.h5'',
      baseline ''20200102'' ''v1'' ''drs4_pedestal.Run00105.0000.h5'',
      baseline ''20200103'' ''v1'' ''drs4_pedestal.Run00107.0000.h5'',
      baseline ''20200104'' ''v1'' ''drs4_pedestal.Run00100.0000.h5'',
      sampling ''20200110'' ''v1'' ''time_calibration.Run00110.0000.h5'',
      sampling ''20200101'' ''v1'' ''time_calibration.Run00100.0000.h5'',
      sampling ''20200105'' ''v1'' ''time_calibration.Run00105.0000.h5'',
      sampling ''20300101'' ''v2'' ''time_calibration.Run99999.0000.h5'',
      sampling ''20300101'' ''v2'' ''time_calibration.Run100000.0000.h5'']"

text \<open>What the globs of the lookups yield on these files, in an order of the scan.\<close>

definition example_scan :: "posix_path \<Rightarrow> string \<Rightarrow> posix_path list" where
  "example_scan d pattern =
     (if d = PosixPath True (level_a @ [''drs4_baseline'']) then
        (if pattern = ''**/v1/drs4_pedestal.Run00100.0000.h5'' then
           [baseline ''20200104'' ''v1'' ''drs4_pedestal.Run00100.0000.h5'',
            baseline ''20200101'' ''v1'' ''drs4_pedestal.Run00100.0000.h5'']
         else if pattern = ''**/v1/drs4_pedestal.Run00105.0000.h5'' then
           [baseline ''20200102'' ''v1'' ''drs4_pedestal.Run00105.0000.h5'']
         else if pattern = ''**/v1/drs4_pedestal.Run00106.0000.h5'' then
           [baseline ''20200102'' ''v1'' ''drs4_pedestal.Run00106.0000.h5'']
         else if pattern = ''**/v1/drs4_pedestal.Run00107.0000.h5'' then
           [baseline ''20200103'' ''v1'' ''drs4_pedestal.Run00107.0000.h5'']
         else [])
      else if d = PosixPath True (level_a @ [''drs4_time_sampling_from_FF'']) then
        (if pattern = ''**/*/v1/time_calibration.Run*.0000.h5'' then
           [sampling ''20200110'' ''v1'' ''time_calibration.Run00110.0000.h5'',
            sampling ''20200101'' ''v1'' ''time_calibration.Run00100.0000.h5'',
            sampling ''20200105'' ''v1'' ''time_calibration.Run00105.0000.h5'']
         else if pattern = ''**/*/v2/time_calibration.Run*.0000.h5'' then
           [sampling ''20300101'' ''v2'' ''time_calibration.Run99999.0000.h5'',
            sampling ''20300101'' ''v2'' ''time_calibration.Run100000.0000.h5'']
         else [])
      else if pattern = ''drs4_pedestal*.0000.h5'' then
        (if d = PosixPath True (level_a @ [''drs4_baseline'', ''20200101'', ''v1'']) then
           [baseline ''20200101'' ''v1'' ''drs4_pedestal.Run00100.0000.h5'']
         else if d = PosixPath True (level_a @ [''drs4_baseline'', ''20200102'', ''v1'']) then
           [baseline ''20200102'' ''v1'' ''drs4_pedestal.Run00106.0000.h5'',
            baseline ''20200102'' ''v1'' ''drs4_pedestal.Run00105.0000.h5'']
         else if d = PosixPath True (level_a @ [''drs4_baseline'', ''20200103'', ''v1'']) then
           [baseline ''20200103'' ''v1'' ''drs4_pedestal.Run00107.0000.h5'']
         else if d = PosixPath True (level_a @ [''drs4_baseline'', ''20200104'', ''v1'']) then
           [baseline ''20200104'' ''v1'' ''drs4_pedestal.Run00100.0000.h5'']
         else [])
      else [])"

definition example_fs :: filesystem where
  "example_fs =
     \<lparr>nodes = tree_of (map parts example_files), cwd = [''data''], homes = (\<lambda>u. None),
      maxlinks = 40, scan = example_scan, journal = []\<rparr>"

definition data :: posix_path where
  "data = PosixPath True [''data'']"

text \<open>
  Output directories with their \<^verbatim>\<open>pro\<close> links: under \<^verbatim>\<open>/data/out\<close> the link
  reaches \<^verbatim>\<open>v1\<close> through \<^verbatim>\<open>/data/out/./latest\<close> and \<^verbatim>\<open>latest -> v1/\<close>; under
  \<^verbatim>\<open>/data/old\<close> it points at a directory that is gone; under \<^verbatim>\<open>/data/new\<close> there
  is none yet.
\<close>

definition output_tree :: filesystem where
  "output_tree =
     \<lparr>nodes = map_of
        [([''data''], Dir),
         ([''data'', ''out''], Dir),
         ([''data'', ''out'', ''v1''], Dir),
         ([''data'', ''out'', ''v1'', ''drs4_pedestal.Run00100.0000.h5''], File),
         ([''data'', ''out'', ''v2''], Dir),
         ([''data'', ''out'', ''latest''], Link (PosixPath False [''v1'', []])),
         ([''data'', ''out'', ''pro''], Link (PosixPath True [''data'', ''out'', ''.'', ''latest''])),
         ([''data'', ''old''], Dir),
         ([''data'', ''old'', ''v1''], Dir),
         ([''data'', ''old'', ''v2''], Dir),
         ([''data'', ''old'', ''pro''], Link (PosixPath True [''data'', ''old'', ''v0''])),
         ([''data'', ''new''], Dir),
         ([''data'', ''new'', ''v1''], Dir),
         ([''data'', ''new'', ''v2''], Dir),
         ([''home''], Dir),
         ([''home'', ''lst''], Dir)],
      cwd = [''data'', ''new''],
      homes = map_of [([], [''home'', ''lst''])],
      maxlinks = 40, scan = (\<lambda>d pattern. []), journal = []\<rparr>"



section \<open>Resolving a path, step by step\<close>

lemma realpath_Nil [code]: "realpath ns d [] = Some d"
  by (subst realpath.simps) simp

lemma realpath_Cons [code]:
  "realpath ns d (c # rest) =
     (if c = [] \<or> c = ''.'' then realpath ns d rest
      else if c = ''..'' then realpath ns (butlast d) rest
      else (case ns (d @ [c]) of
              Some (Link t) \<Rightarrow> realpath ns (if anchored t then [] else d) (parts t @ rest)
            | _ \<Rightarrow> realpath ns (d @ [c]) rest))"
  by (subst realpath.simps) simp

section \<open>The pedestal lookup without arguments\<close>

text \<open>
  C8: with neither a run nor a date, \<^verbatim>\<open>find_pedestal_file\<close> raises
  \<^verbatim>\<open>ValueError\<close> whatever the filesystem holds, so nothing was searched; a
  \<^verbatim>\<open>ValueError\<close> is never one of the \<^verbatim>\<open>IOError\<close>s of the searches.
\<close>

theorem find_pedestal_file_no_arguments:
  "find_pedestal_file fs pro None None base_dir = Inl (ValueError ''Must give at least `date` or `run`'')
   \<and> find_pedestal_file fs pro None None base_dir = find_pedestal_file fs' pro None None base_dir
   \<and> find_pedestal_file fs pro None None base_dir \<noteq> Inl (IOError msg)"
  by (simp add: find_pedestal_file_def)

section \<open>Sorting the matches\<close>

lemma sorted_paths_Nil: "sorted_paths [] = []"
  by (simp add: sorted_paths_def)

lemma sorted_paths_single: "sorted_paths [p] = [p]"
  by (simp add: sorted_paths_def)

lemma set_sorted_paths: "set (sorted_paths ps) = set ps"
  by (simp add: sorted_paths_def)

lemma length_sorted_paths: "length (sorted_paths ps) = length ps"
  by (simp add: sorted_paths_def)

lemma sorted_paths_eq_Nil: "sorted_paths ps = [] \<longleftrightarrow> ps = []"
  using length_sorted_paths [of ps] by (metis length_0_conv)

lemma hd_sorted_paths:
  assumes "ps \<noteq> []"
  shows "hd (sorted_paths ps) \<in> set ps \<and> (\<forall>q\<in>set ps. cparts (hd (sorted_paths ps)) \<le> cparts q)"
proof -
  let ?s = "sorted_paths ps"
  have ne: "?s \<noteq> []" using assms by (simp add: sorted_paths_eq_Nil)
  have srt: "sorted (map cparts ?s)" by (simp add: sorted_paths_def)
  from ne obtain x xs where eq: "?s = x # xs" by (cases ?s) auto
  have "x \<in> set ?s" by (simp add: eq)
  then have mem: "x \<in> set ps" by (simp add: set_sorted_paths)
  have "\<forall>q\<in>set ?s. cparts x \<le> cparts q"
    using srt by (auto simp: eq)
  then have "\<forall>q\<in>set ps. cparts x \<le> cparts q" by (simp add: set_sorted_paths)
  with mem show ?thesis by (simp add: eq)
qed

lemma and_then_Inr: "and_then (Inr x) f = f x"
  by (simp add: and_then_def)

lemma and_then_Inl: "and_then (Inl e) f = Inl e"
  by (simp add: and_then_def)

section \<open>Patterns that \<^verbatim>\<open>pathlib\<close> refuses\<close>

text \<open>A pattern that starts at the root is refused by \<^verbatim>\<open>rglob\<close>, whatever the tree holds.\<close>

lemma rglob_non_relative:
  assumes "pattern \<noteq> []" and "hd pattern = CHR ''/''"
  shows "rglob fs d pattern = Inl (NotImplementedError ''Non-relative patterns are unsupported'')"
  using assms by (simp add: rglob_def)

text \<open>
  \<^verbatim>\<open>rglob\<close> either refuses the pattern, and then nothing was scanned, or yields what
  the scan of the tree yields.
\<close>

lemma rglob_cases:
  "(\<exists>e. rglob fs d pattern = Inl e \<and> (\<forall>fs'. rglob fs' d pattern = Inl e))
   \<or> rglob fs d pattern = Inr (scan fs d (''**/'' @ pattern))"
  by (simp add: rglob_def split: option.splits)

section \<open>The pedestal lookup by run\<close>

text \<open>
  C10: once \<^verbatim>\<open>pedestal_run\<close> is given, the \<^verbatim>\<open>date\<close> argument is never read: any two
  dates (\<open>None\<close> included) give the same path or the same failure.
\<close>

theorem find_pedestal_file_run_ignores_date:
  "find_pedestal_file fs pro (Some r) d1 base_dir = find_pedestal_file fs pro (Some r) d2 base_dir"
  by (simp add: find_pedestal_file_def)

text \<open>
  C2, as the code has it. What \<^verbatim>\<open>rglob\<close> raises on a pattern it refuses is raised by
  the lookup by run: with an empty production version, or one that starts with a
  slash, that is \<^verbatim>\<open>NotImplementedError\<close>. On a pattern it accepts, the lookup raises
  \<^verbatim>\<open>IOError\<close> when no file matches, returns the match when there is one, and with
  several matches returns the first in sorted order (a match that no other match
  precedes), raising nothing for their number; the path returned is resolved.
\<close>

theorem find_pedestal_file_by_run:
  "(\<forall>e. rglob fs (ped_dir base_dir)
            (pro @ ''/drs4_pedestal.Run'' @ format_0d 5 r @ ''.0000.h5'') = Inl e \<longrightarrow>
          find_pedestal_file fs pro (Some r) date base_dir = Inl e)
   \<and> (pro = [] \<or> hd pro = CHR ''/'' \<longrightarrow>
          find_pedestal_file fs pro (Some r) date base_dir
            = Inl (NotImplementedError ''Non-relative patterns are unsupported''))
   \<and> (\<forall>matches. rglob fs (ped_dir base_dir)
            (pro @ ''/drs4_pedestal.Run'' @ format_0d 5 r @ ''.0000.h5'') = Inr matches \<longrightarrow>
          (matches = [] \<longrightarrow>
             find_pedestal_file fs pro (Some r) date base_dir
               = Inl (IOError (''Pedestal file from run '' @ str_int r @ '' not found''
                        @ [CHR 0x0A])))
        \<and> (\<forall>p. matches = [p] \<longrightarrow>
             find_pedestal_file fs pro (Some r) date base_dir = resolve fs p)
        \<and> (matches \<noteq> [] \<longrightarrow>
             find_pedestal_file fs pro (Some r) date base_dir
               = resolve fs (hd (sorted_paths matches))
             \<and> hd (sorted_paths matches) \<in> set matches
             \<and> (\<forall>q\<in>set matches. cparts (hd (sorted_paths matches)) \<le> cparts q)))"
proof -
  let ?pattern = "pro @ ''/drs4_pedestal.Run'' @ format_0d 5 r @ ''.0000.h5''"
  let ?res = "find_pedestal_file fs pro (Some r) date base_dir"
  have refused: "?res = Inl e" if "rglob fs (ped_dir base_dir) ?pattern = Inl e" for e
    using that by (simp add: find_pedestal_file_def and_then_Inl)
  have root: "?res = Inl (NotImplementedError ''Non-relative patterns are unsupported'')"
    if "pro = [] \<or> hd pro = CHR ''/''"
  proof -
    have "?pattern \<noteq> [] \<and> hd ?pattern = CHR ''/''"
      using that by (cases pro) auto
    then have "rglob fs (ped_dir base_dir) ?pattern
        = Inl (NotImplementedError ''Non-relative patterns are unsupported'')"
      by (simp add: rglob_def)
    then show ?thesis by (rule refused)
  qed
  have accepted: "(matches = [] \<longrightarrow>
             ?res = Inl (IOError (''Pedestal file from run '' @ str_int r @ '' not found''
                        @ [CHR 0x0A])))
        \<and> (\<forall>p. matches = [p] \<longrightarrow> ?res = resolve fs p)
        \<and> (matches \<noteq> [] \<longrightarrow>
             ?res = resolve fs (hd (sorted_paths matches))
             \<and> hd (sorted_paths matches) \<in> set matches
             \<and> (\<forall>q\<in>set matches. cparts (hd (sorted_paths matches)) \<le> cparts q))"
    if m: "rglob fs (ped_dir base_dir) ?pattern = Inr matches" for matches
  proof -
    have a: "matches = [] \<longrightarrow>
             ?res = Inl (IOError (''Pedestal file from run '' @ str_int r @ '' not found''
                        @ [CHR 0x0A]))"
      using m by (simp add: find_pedestal_file_def and_then_Inr Let_def sorted_paths_eq_Nil)
    have c: "matches \<noteq> [] \<longrightarrow> ?res = resolve fs (hd (sorted_paths matches))"
      using m
      by (simp add: find_pedestal_file_def and_then_Inr Let_def sorted_paths_eq_Nil hd_conv_nth)
    have b: "\<forall>p. matches = [p] \<longrightarrow> ?res = resolve fs p"
      using c by (auto simp: sorted_paths_single)
    from a b c hd_sorted_paths [of matches] show ?thesis by blast
  qed
  from refused root accepted show ?thesis by blast
qed

theorem find_pedestal_file_by_run_witness:
  "find_pedestal_file example_fs ''v1'' (Some 101) None data
     = Inl (IOError (''Pedestal file from run 101 not found'' @ [CHR 0x0A]))
   \<and> find_pedestal_file example_fs ''v1'' (Some 105) None data
       = Inr (baseline ''20200102'' ''v1'' ''drs4_pedestal.Run00105.0000.h5'')
   \<and> find_pedestal_file example_fs ''v1'' (Some 100) None data
       = Inr (baseline ''20200101'' ''v1'' ''drs4_pedestal.Run00100.0000.h5'')
   \<and> find_pedestal_file example_fs [] (Some 100) None data
       = Inl (NotImplementedError ''Non-relative patterns are unsupported'')
   \<and> find_pedestal_file example_fs ''v**1'' (Some 100) None data
       = Inl (ValueError ''Invalid pattern: '**' can only be an entire path component'')"
proof -
  have none: "rglob example_fs (ped_dir data)
      (''v1'' @ ''/drs4_pedestal.Run'' @ format_0d 5 101 @ ''.0000.h5'') = Inr []"
    by code_simp
  have one: "rglob example_fs (ped_dir data)
      (''v1'' @ ''/drs4_pedestal.Run'' @ format_0d 5 105 @ ''.0000.h5'')
      = Inr [baseline ''20200102'' ''v1'' ''drs4_pedestal.Run00105.0000.h5'']"
    by code_simp
  have two: "rglob example_fs (ped_dir data)
      (''v1'' @ ''/drs4_pedestal.Run'' @ format_0d 5 100 @ ''.0000.h5'')
      = Inr [baseline ''20200104'' ''v1'' ''drs4_pedestal.Run00100.0000.h5'',
             baseline ''20200101'' ''v1'' ''drs4_pedestal.Run00100.0000.h5'']"
    by code_simp
  have stars: "rglob example_fs (ped_dir data)
      (''v**1'' @ ''/drs4_pedestal.Run'' @ format_0d 5 100 @ ''.0000.h5'')
      = Inl (ValueError ''Invalid pattern: '**' can only be an entire path component'')"
    by code_simp
  have srt: "hd (sorted_paths [baseline ''20200104'' ''v1'' ''drs4_pedestal.Run00100.0000.h5'',
         baseline ''20200101'' ''v1'' ''drs4_pedestal.Run00100.0000.h5''])
      = baseline ''20200101'' ''v1'' ''drs4_pedestal.Run00100.0000.h5''"
    by code_simp
  have res1: "resolve example_fs (baseline ''20200102'' ''v1'' ''drs4_pedestal.Run00105.0000.h5'')
      = Inr (baseline ''20200102'' ''v1'' ''drs4_pedestal.Run00105.0000.h5'')"
    by code_simp
  have res2: "resolve example_fs (baseline ''20200101'' ''v1'' ''drs4_pedestal.Run00100.0000.h5'')
      = Inr (baseline ''20200101'' ''v1'' ''drs4_pedestal.Run00100.0000.h5'')"
    by code_simp
  have str: "str_int 101 = ''101''"
    by code_simp
  note by_run = find_pedestal_file_by_run [where fs = example_fs and base_dir = data and date = None]
  have a: "find_pedestal_file example_fs ''v1'' (Some 101) None data
      = Inl (IOError (''Pedestal file from run 101 not found'' @ [CHR 0x0A]))"
    using by_run [THEN conjunct2, THEN conjunct2, rule_format, OF none, THEN conjunct1]
    by (simp add: str)
  have b: "find_pedestal_file example_fs ''v1'' (Some 105) None data
      = Inr (baseline ''20200102'' ''v1'' ''drs4_pedestal.Run00105.0000.h5'')"
    using by_run [THEN conjunct2, THEN conjunct2, rule_format, OF one, THEN conjunct2,
        THEN conjunct1]
    by (simp add: res1)
  have c: "find_pedestal_file example_fs ''v1'' (Some 100) None data
      = Inr (baseline ''20200101'' ''v1'' ''drs4_pedestal.Run00100.0000.h5'')"
    using by_run [THEN conjunct2, THEN conjunct2, rule_format, OF two, THEN conjunct2,
        THEN conjunct2]
    by (simp add: srt res2)
  have d: "find_pedestal_file example_fs [] (Some 100) None data
      = Inl (NotImplementedError ''Non-relative patterns are unsupported'')"
    using by_run [where pro = "[]" and r = 100, THEN conjunct2, THEN conjunct1] by simp
  have e: "find_pedestal_file example_fs ''v**1'' (Some 100) None data
      = Inl (ValueError ''Invalid pattern: '**' can only be an entire path component'')"
    using by_run [THEN conjunct1, rule_format, OF stars] .
  from a b c d e show ?thesis by blast
qed

text \<open>
  Run 100 has a pedestal file under two dates: the lookup by run returns the one of
  the earlier date and raises nothing.
\<close>

theorem find_pedestal_file_by_run_counterexample:
  "rglob example_fs (ped_dir data) (''v1'' @ ''/drs4_pedestal.Run'' @ format_0d 5 100 @ ''.0000.h5'')
     = Inr [baseline ''20200104'' ''v1'' ''drs4_pedestal.Run00100.0000.h5'',
            baseline ''20200101'' ''v1'' ''drs4_pedestal.Run00100.0000.h5'']
   \<and> find_pedestal_file example_fs ''v1'' (Some 100) None data
       = Inr (baseline ''20200101'' ''v1'' ''drs4_pedestal.Run00100.0000.h5'')"
  by code_simp

section \<open>Printing the matches\<close>



text \<open>A single quote in the text changes the quotes; a backslash is doubled.\<close>

lemma repr_str_examples:
  "repr_str ''it's'' = [CHR 0x22] @ ''it's'' @ [CHR 0x22]
   \<and> repr_str [CHR ''a'', CHR 0x5C, CHR ''b'']
       = [CHR 0x27, CHR ''a'', CHR 0x5C, CHR 0x5C, CHR ''b'', CHR 0x27]
   \<and> repr_str [CHR ''a'', CHR 0x27, CHR 0x22, CHR 0x0A]
       = [CHR 0x27, CHR ''a'', CHR 0x5C, CHR 0x27, CHR 0x22, CHR 0x5C, CHR ''n'', CHR 0x27]"
  by code_simp




section \<open>The pedestal lookup by date\<close>




section \<open>The last time calibration file at or before a run\<close>

lemma last_time_file_sorted:
  assumes "\<forall>p\<in>set cands. parse p = Inr (info p)"
    and "sorted (map (\<lambda>p. run (info p)) cands)"
    and "\<forall>p\<in>set cands. resolve fs p = Inr (canon p)"
  shows "last_time_file fs parse target acc cands
           = Inr (case filter (\<lambda>p. run (info p) \<le> target) cands of
                    [] \<Rightarrow> acc
                  | q # qs \<Rightarrow> Some (canon (last (q # qs))))"
  using assms
proof (induction cands arbitrary: acc)
  case Nil
  then show ?case by simp
next
  case (Cons p ps)
  have parse_p: "parse p = Inr (info p)" using Cons.prems(1) by simp
  have res_p: "resolve fs p = Inr (canon p)" using Cons.prems(3) by simp
  show ?case
  proof (cases "run (info p) \<le> target")
    case True
    have ih: "last_time_file fs parse target (Some (canon p)) ps
           = Inr (case filter (\<lambda>p. run (info p) \<le> target) ps of
                    [] \<Rightarrow> Some (canon p)
                  | q # qs \<Rightarrow> Some (canon (last (q # qs))))"
      using Cons.IH [of "Some (canon p)"] Cons.prems by simp
    show ?thesis
      using True parse_p res_p ih
      by (simp add: and_then_def split: list.splits)
  next
    case False
    have "\<forall>q\<in>set ps. run (info p) \<le> run (info q)"
      using Cons.prems(2) by simp
    with False have "filter (\<lambda>p. run (info p) \<le> target) ps = []"
      by (auto simp: filter_empty_conv)
    with False parse_p show ?thesis
      by (simp add: and_then_def)
  qed
qed

lemma sorted_le_last:
  "sorted (map f ys) \<Longrightarrow> x \<in> set ys \<Longrightarrow> (f x :: int) \<le> f (last ys)"
  by (induction ys) auto

lemma last_filter_max:
  assumes "sorted (map f xs)" and "filter (\<lambda>x. f x \<le> (t::int)) xs = q # qs"
  shows "last (q # qs) \<in> set xs \<and> f (last (q # qs)) \<le> t
         \<and> (\<forall>x\<in>set xs. f x \<le> t \<longrightarrow> f x \<le> f (last (q # qs)))"
proof -
  let ?ys = "filter (\<lambda>x. f x \<le> t) xs"
  have ne: "?ys \<noteq> []" using assms(2) by simp
  have mem: "last ?ys \<in> set ?ys" using ne by (rule last_in_set)
  have srt: "sorted (map f ?ys)" using assms(1) by (rule sorted_filter)
  have "\<forall>x\<in>set ?ys. f x \<le> f (last ?ys)"
    using srt by (blast intro: sorted_le_last)
  then show ?thesis using mem unfolding assms(2) [symmetric] by auto
qed

text \<open>The lookup without \<^verbatim>\<open>time_run\<close>, once the glob has returned.\<close>

lemma find_time_calibration_file_globbed:
  assumes "rglob fs (time_dir base_dir) (''*/'' @ pro @ ''/time_calibration.Run*.0000.h5'')
             = Inr matches"
  shows "find_time_calibration_file fs parse pro target None base_dir =
     (if matches = [] then
        Inl (IOError (''No time calibration file found in the data tree for prod ''
               @ pro @ [CHR 0x0A]))
      else
        and_then (last_time_file fs parse target None (sorted_paths matches))
          (\<lambda>time_file.
             case time_file of
               None \<Rightarrow>
                 Inl (IOError (''No time calibration file found before run ''
                        @ str_int target @ '' for prod '' @ pro @ [CHR 0x0A]))
             | Some f \<Rightarrow> Inr f))"
  using assms
  by (simp add: find_time_calibration_file_def and_then_Inr Let_def sorted_paths_eq_Nil)

text \<open>
  The loop stops at the first candidate in sorted path order: when that one is beyond
  the target nothing is found, whatever follows it; when its name does not parse, the
  lookup raises what the parser raises.
\<close>

lemma find_time_calibration_file_first_beyond:
  assumes "rglob fs (time_dir base_dir) (''*/'' @ pro @ ''/time_calibration.Run*.0000.h5'')
             = Inr matches"
    and "sorted_paths matches = p # rest"
    and "parse p = Inr info"
    and "target < run info"
  shows "find_time_calibration_file fs parse pro target None base_dir
           = Inl (IOError (''No time calibration file found before run '' @ str_int target
                    @ '' for prod '' @ pro @ [CHR 0x0A]))"
proof -
  have "matches \<noteq> []" using assms(2) by (auto simp: sorted_paths_Nil)
  then show ?thesis
    unfolding find_time_calibration_file_globbed [OF assms(1)] assms(2)
    using assms(3,4) by (simp add: and_then_def)
qed

lemma find_time_calibration_file_first_unparsed:
  assumes "rglob fs (time_dir base_dir) (''*/'' @ pro @ ''/time_calibration.Run*.0000.h5'')
             = Inr matches"
    and "sorted_paths matches = p # rest"
    and "parse p = Inl e"
  shows "find_time_calibration_file fs parse pro target None base_dir = Inl e"
proof -
  have "matches \<noteq> []" using assms(2) by (auto simp: sorted_paths_Nil)
  then show ?thesis
    unfolding find_time_calibration_file_globbed [OF assms(1)] assms(2)
    using assms(3) by (simp add: and_then_def)
qed

text \<open>
  When every candidate parses and resolves, and the run numbers ascend in sorted path
  order, the lookup returns a candidate whose run is the greatest at or below the
  target, the target itself included.
\<close>

lemma find_time_calibration_file_ascending:
  assumes matches: "rglob fs (time_dir base_dir)
                      (''*/'' @ pro @ ''/time_calibration.Run*.0000.h5'') = Inr matches"
    and parsed: "\<forall>p\<in>set matches. parse p = Inr (info p)"
    and ascending: "sorted (map (\<lambda>p. run (info p)) (sorted_paths matches))"
    and resolved: "\<forall>p\<in>set matches. resolve fs p = Inr (canon p)"
    and some: "\<exists>p\<in>set matches. run (info p) \<le> target"
  shows "\<exists>p\<in>set matches. run (info p) \<le> target
               \<and> (\<forall>q\<in>set matches. run (info q) \<le> target \<longrightarrow> run (info q) \<le> run (info p))
               \<and> find_time_calibration_file fs parse pro target None base_dir = resolve fs p"
proof -
  let ?cands = "sorted_paths matches"
  let ?ok = "filter (\<lambda>p. run (info p) \<le> target) ?cands"
  have parsed': "\<forall>p\<in>set ?cands. parse p = Inr (info p)"
    using parsed by (simp add: set_sorted_paths)
  have resolved': "\<forall>p\<in>set ?cands. resolve fs p = Inr (canon p)"
    using resolved by (simp add: set_sorted_paths)
  have loop: "last_time_file fs parse target None ?cands
           = Inr (case ?ok of [] \<Rightarrow> None | q # qs \<Rightarrow> Some (canon (last (q # qs))))"
    using parsed' ascending resolved' by (rule last_time_file_sorted)
  from some have "?ok \<noteq> []" by (auto simp: filter_empty_conv set_sorted_paths)
  then obtain q qs where ok: "?ok = q # qs" by (cases ?ok) auto
  let ?best = "last (q # qs)"
  have best: "?best \<in> set ?cands \<and> run (info ?best) \<le> target
         \<and> (\<forall>x\<in>set ?cands. run (info x) \<le> target \<longrightarrow> run (info x) \<le> run (info ?best))"
    using ascending ok by (rule last_filter_max)
  have ne: "matches \<noteq> []" using some by auto
  have "find_time_calibration_file fs parse pro target None base_dir = Inr (canon ?best)"
    unfolding find_time_calibration_file_globbed [OF matches] loop ok
    using ne by (simp add: and_then_def)
  also have "\<dots> = resolve fs ?best" using resolved best by (simp add: set_sorted_paths)
  finally show ?thesis using best by (auto simp: set_sorted_paths)
qed

text \<open>
  C1 does not hold of the code. The comment of line 77 asks for the last time run
  before or equal to the calibration run, but the candidates are read in the order of
  their paths as text, and the loop stops at the first one beyond the target. Runs
  99999 and 100000 under one date sort with 100000 first. Asked for run 99999 the
  lookup stops at once and raises \<^verbatim>\<open>IOError\<close>, though the file of run 99999 is
  there; asked for run 100005 it returns the file of run 99999, not the one of run
  100000.
\<close>

theorem find_time_calibration_file_text_order:
  "rglob example_fs (time_dir data) (''*/'' @ ''v2'' @ ''/time_calibration.Run*.0000.h5'')
     = Inr [sampling ''20300101'' ''v2'' ''time_calibration.Run99999.0000.h5'',
            sampling ''20300101'' ''v2'' ''time_calibration.Run100000.0000.h5'']
   \<and> run_from_name (sampling ''20300101'' ''v2'' ''time_calibration.Run99999.0000.h5'')
       = Inr \<lparr>run = 99999\<rparr>
   \<and> run_from_name (sampling ''20300101'' ''v2'' ''time_calibration.Run100000.0000.h5'')
       = Inr \<lparr>run = 100000\<rparr>
   \<and> find_time_calibration_file example_fs run_from_name ''v2'' 99999 None data
       = Inl (IOError (''No time calibration file found before run 99999 for prod v2'' @ [CHR 0x0A]))
   \<and> find_time_calibration_file example_fs run_from_name ''v2'' 100005 None data
       = Inr (sampling ''20300101'' ''v2'' ''time_calibration.Run99999.0000.h5'')"
proof -
  let ?lo = "sampling ''20300101'' ''v2'' ''time_calibration.Run99999.0000.h5''"
  let ?hi = "sampling ''20300101'' ''v2'' ''time_calibration.Run100000.0000.h5''"
  have matches: "rglob example_fs (time_dir data) (''*/'' @ ''v2'' @ ''/time_calibration.Run*.0000.h5'')
      = Inr [?lo, ?hi]"
    by code_simp
  have cands: "sorted_paths [?lo, ?hi] = [?hi, ?lo]"
    by code_simp
  have plo: "run_from_name ?lo = Inr \<lparr>run = 99999\<rparr>" by code_simp
  have phi: "run_from_name ?hi = Inr \<lparr>run = 100000\<rparr>" by code_simp
  have rlo: "resolve example_fs ?lo = Inr ?lo" by code_simp
  have rhi: "resolve example_fs ?hi = Inr ?hi" by code_simp
  have s: "str_int 99999 = ''99999''"
    by (simp add: str_int_def digits.simps digit_char_def)
  have below: "find_time_calibration_file example_fs run_from_name ''v2'' 99999 None data
       = Inl (IOError (''No time calibration file found before run 99999 for prod v2'' @ [CHR 0x0A]))"
    unfolding find_time_calibration_file_globbed [OF matches] cands
    by (simp add: and_then_def plo phi s)
  have above: "find_time_calibration_file example_fs run_from_name ''v2'' 100005 None data = Inr ?lo"
    unfolding find_time_calibration_file_globbed [OF matches] cands
    by (simp add: and_then_def plo phi rlo rhi)
  from matches plo phi below above show ?thesis by (intro conjI)
qed

text \<open>
  With runs 100, 105 and 110, whose names sort as their numbers do: run 107 gets the
  file of run 105, run 100 its own, and run 99 none.
\<close>

lemma find_time_calibration_file_example:
  "find_time_calibration_file example_fs run_from_name ''v1'' 107 None data
     = Inr (sampling ''20200105'' ''v1'' ''time_calibration.Run00105.0000.h5'')
   \<and> find_time_calibration_file example_fs run_from_name ''v1'' 100 None data
     = Inr (sampling ''20200101'' ''v1'' ''time_calibration.Run00100.0000.h5'')
   \<and> find_time_calibration_file example_fs run_from_name ''v1'' 99 None data
     = Inl (IOError (''No time calibration file found before run 99 for prod v1'' @ [CHR 0x0A]))"
proof -
  let ?a = "sampling ''20200101'' ''v1'' ''time_calibration.Run00100.0000.h5''"
  let ?b = "sampling ''20200105'' ''v1'' ''time_calibration.Run00105.0000.h5''"
  let ?c = "sampling ''20200110'' ''v1'' ''time_calibration.Run00110.0000.h5''"
  have matches: "rglob example_fs (time_dir data)
      (''*/'' @ ''v1'' @ ''/time_calibration.Run*.0000.h5'') = Inr [?c, ?a, ?b]"
    by code_simp
  have cands: "sorted_paths [?c, ?a, ?b] = [?a, ?b, ?c]"
    by code_simp
  have pa: "run_from_name ?a = Inr \<lparr>run = 100\<rparr>" by code_simp
  have pb: "run_from_name ?b = Inr \<lparr>run = 105\<rparr>" by code_simp
  have pc: "run_from_name ?c = Inr \<lparr>run = 110\<rparr>" by code_simp
  have ra: "resolve example_fs ?a = Inr ?a" by code_simp
  have rb: "resolve example_fs ?b = Inr ?b" by code_simp
  have rc: "resolve example_fs ?c = Inr ?c" by code_simp
  have s: "str_int 99 = ''99''" by code_simp
  have x: "find_time_calibration_file example_fs run_from_name ''v1'' 107 None data = Inr ?b"
    unfolding find_time_calibration_file_globbed [OF matches] cands
    by (simp add: and_then_def pa pb pc ra rb rc)
  have y: "find_time_calibration_file example_fs run_from_name ''v1'' 100 None data = Inr ?a"
    unfolding find_time_calibration_file_globbed [OF matches] cands
    by (simp add: and_then_def pa pb pc ra rb rc)
  have z: "find_time_calibration_file example_fs run_from_name ''v1'' 99 None data
     = Inl (IOError (''No time calibration file found before run 99 for prod v1'' @ [CHR 0x0A]))"
    unfolding find_time_calibration_file_globbed [OF matches] cands
    by (simp add: and_then_def pa pb pc s)
  from x y z show ?thesis by (intro conjI)
qed

section \<open>Telling the failures apart\<close>

text \<open>
  C3: when more than one pedestal file matches a date, the lookup raises an
  \<^verbatim>\<open>IOError\<close> whose message starts with \<^verbatim>\<open>Too many pedestal files found\<close>. Every
  lookup that finds nothing raises too, whatever its arguments (no match for a
  pedestal run, no match for a date, no time calibration file at all, none at or
  before the run, no match for a time run, no R0 file, no run summary): an
  \<^verbatim>\<open>IOError\<close> as well, with a message that does not start so and hence is another
  message. The two kinds of failure have the same class; it is the message that tells
  them apart.
\<close>

theorem ambiguous_match_differs_from_not_found:
  assumes "glob fs (joinpath (joinpath (ped_dir base_dir) date) pro) ''drs4_pedestal*.0000.h5''
             = Inr matches"
    and "1 < length matches"
  shows "\<exists>too_many.
       find_pedestal_file fs pro None (Some date) base_dir = Inl (IOError too_many)
       \<and> prefix ''Too many pedestal files found'' too_many
       \<and> (rglob fs1 (ped_dir b1) (pro1 @ ''/drs4_pedestal.Run'' @ format_0d 5 r1 @ ''.0000.h5'')
            = Inr [] \<longrightarrow>
          (\<exists>m. find_pedestal_file fs1 pro1 (Some r1) d1 b1 = Inl (IOError m)
             \<and> m \<noteq> too_many \<and> \<not> prefix ''Too many pedestal files found'' m))
       \<and> (glob fs2 (joinpath (joinpath (ped_dir b2) date2) pro2) ''drs4_pedestal*.0000.h5''
            = Inr [] \<longrightarrow>
          (\<exists>m. find_pedestal_file fs2 pro2 None (Some date2) b2 = Inl (IOError m)
             \<and> m \<noteq> too_many \<and> \<not> prefix ''Too many pedestal files found'' m))
       \<and> (rglob fs3 (time_dir b3) (''*/'' @ pro3 @ ''/time_calibration.Run*.0000.h5'')
            = Inr [] \<longrightarrow>
          (\<exists>m. find_time_calibration_file fs3 parse3 pro3 run3 None b3 = Inl (IOError m)
             \<and> m \<noteq> too_many \<and> \<not> prefix ''Too many pedestal files found'' m))
       \<and> (rglob fs4 (time_dir b4) (''*/'' @ pro4 @ ''/time_calibration.Run*.0000.h5'')
            = Inr matches4
          \<and> matches4 \<noteq> []
          \<and> last_time_file fs4 parse4 run4 None (sorted_paths matches4) = Inr None \<longrightarrow>
          (\<exists>m. find_time_calibration_file fs4 parse4 pro4 run4 None b4 = Inl (IOError m)
             \<and> m \<noteq> too_many \<and> \<not> prefix ''Too many pedestal files found'' m))
       \<and> (rglob fs5 (time_dir b5)
              (''*/'' @ pro5 @ ''/time_calibration.Run'' @ format_0d 5 t5 @ ''.0000.h5'')
            = Inr [] \<longrightarrow>
          (\<exists>m. find_time_calibration_file fs5 parse5 pro5 run5 (Some t5) b5 = Inl (IOError m)
             \<and> m \<noteq> too_many \<and> \<not> prefix ''Too many pedestal files found'' m))
       \<and> (rglob fs6 r0_dir (''LST-1.1.Run'' @ format_0d 5 run6 @ ''.'' @ format_0d 4 sub_run6
              @ ''*.fits.fz'')
            = Inr [] \<longrightarrow>
          (\<exists>m. find_r0_subrun fs6 run6 sub_run6 r0_dir = Inl (IOError m)
             \<and> m \<noteq> too_many \<and> \<not> prefix ''Too many pedestal files found'' m))
       \<and> (\<not> exists fs7 (joinpath b7 (''monitoring/RunSummary/RunSummary_'' @ date7 @ ''.ecsv'')) \<longrightarrow>
          (\<exists>m. find_run_summary fs7 date7 b7 = Inl (IOError m)
             \<and> m \<noteq> too_many \<and> \<not> prefix ''Too many pedestal files found'' m))"
proof -
  let ?too_many = "''Too many pedestal files found for date '' @ date @ '': ''
      @ repr_path_list (sorted_paths matches) @ '', choose one run'' @ [CHR 0x0A]"
  let ?start = "''Too many pedestal files found''"
  have ne: "matches \<noteq> []" using assms(2) by auto
  have amb: "find_pedestal_file fs pro None (Some date) base_dir = Inl (IOError ?too_many)"
    using assms ne
    by (simp add: find_pedestal_file_def and_then_Inr Let_def sorted_paths_eq_Nil
        length_sorted_paths)
  have start: "prefix ?start ?too_many"
    by simp
  have other: "m \<noteq> ?too_many" if "\<not> prefix ?start m" for m
    using that start by blast
  have c1: "\<exists>m. find_pedestal_file fs1 pro1 (Some r1) d1 b1 = Inl (IOError m)
             \<and> m \<noteq> ?too_many \<and> \<not> prefix ?start m"
    if "rglob fs1 (ped_dir b1) (pro1 @ ''/drs4_pedestal.Run'' @ format_0d 5 r1 @ ''.0000.h5'')
          = Inr []"
  proof -
    let ?m = "''Pedestal file from run '' @ str_int r1 @ '' not found'' @ [CHR 0x0A]"
    have "find_pedestal_file fs1 pro1 (Some r1) d1 b1 = Inl (IOError ?m)"
      using that by (simp add: find_pedestal_file_def and_then_Inr Let_def sorted_paths_Nil)
    moreover have "\<not> prefix ?start ?m" by simp
    ultimately show ?thesis using other by blast
  qed
  have c2: "\<exists>m. find_pedestal_file fs2 pro2 None (Some date2) b2 = Inl (IOError m)
             \<and> m \<noteq> ?too_many \<and> \<not> prefix ?start m"
    if "glob fs2 (joinpath (joinpath (ped_dir b2) date2) pro2) ''drs4_pedestal*.0000.h5''
          = Inr []"
  proof -
    let ?m = "''No pedestal file found for date '' @ date2"
    have "find_pedestal_file fs2 pro2 None (Some date2) b2 = Inl (IOError ?m)"
      using that by (simp add: find_pedestal_file_def and_then_Inr Let_def sorted_paths_Nil)
    moreover have "\<not> prefix ?start ?m" by simp
    ultimately show ?thesis using other by blast
  qed
  have c3: "\<exists>m. find_time_calibration_file fs3 parse3 pro3 run3 None b3 = Inl (IOError m)
             \<and> m \<noteq> ?too_many \<and> \<not> prefix ?start m"
    if "rglob fs3 (time_dir b3) (''*/'' @ pro3 @ ''/time_calibration.Run*.0000.h5'') = Inr []"
  proof -
    let ?m = "''No time calibration file found in the data tree for prod '' @ pro3 @ [CHR 0x0A]"
    have "find_time_calibration_file fs3 parse3 pro3 run3 None b3 = Inl (IOError ?m)"
      unfolding find_time_calibration_file_globbed [OF that] by simp
    moreover have "\<not> prefix ?start ?m" by simp
    ultimately show ?thesis using other by blast
  qed
  have c4: "\<exists>m. find_time_calibration_file fs4 parse4 pro4 run4 None b4 = Inl (IOError m)
             \<and> m \<noteq> ?too_many \<and> \<not> prefix ?start m"
    if "rglob fs4 (time_dir b4) (''*/'' @ pro4 @ ''/time_calibration.Run*.0000.h5'') = Inr matches4
          \<and> matches4 \<noteq> []
          \<and> last_time_file fs4 parse4 run4 None (sorted_paths matches4) = Inr None"
  proof -
    let ?m = "''No time calibration file found before run '' @ str_int run4 @ '' for prod ''
        @ pro4 @ [CHR 0x0A]"
    from that have g: "rglob fs4 (time_dir b4) (''*/'' @ pro4 @ ''/time_calibration.Run*.0000.h5'')
        = Inr matches4" ..
    have "find_time_calibration_file fs4 parse4 pro4 run4 None b4 = Inl (IOError ?m)"
      unfolding find_time_calibration_file_globbed [OF g] using that by (simp add: and_then_Inr)
    moreover have "\<not> prefix ?start ?m" by simp
    ultimately show ?thesis using other by blast
  qed
  have c5: "\<exists>m. find_time_calibration_file fs5 parse5 pro5 run5 (Some t5) b5 = Inl (IOError m)
             \<and> m \<noteq> ?too_many \<and> \<not> prefix ?start m"
    if "rglob fs5 (time_dir b5)
              (''*/'' @ pro5 @ ''/time_calibration.Run'' @ format_0d 5 t5 @ ''.0000.h5'') = Inr []"
  proof -
    let ?m = "''Time calibration file from run '' @ str_int t5 @ '' not found'' @ [CHR 0x0A]"
    have "find_time_calibration_file fs5 parse5 pro5 run5 (Some t5) b5 = Inl (IOError ?m)"
      using that
      by (simp add: find_time_calibration_file_def and_then_Inr Let_def sorted_paths_Nil)
    moreover have "\<not> prefix ?start ?m" by simp
    ultimately show ?thesis using other by blast
  qed
  have c6: "\<exists>m. find_r0_subrun fs6 run6 sub_run6 r0_dir = Inl (IOError m)
             \<and> m \<noteq> ?too_many \<and> \<not> prefix ?start m"
    if "rglob fs6 r0_dir (''LST-1.1.Run'' @ format_0d 5 run6 @ ''.'' @ format_0d 4 sub_run6
              @ ''*.fits.fz'') = Inr []"
  proof -
    let ?m = "''Run '' @ str_int run6 @ '' not found'' @ [CHR 0x0A]"
    have "find_r0_subrun fs6 run6 sub_run6 r0_dir = Inl (IOError ?m)"
      using that by (simp add: find_r0_subrun_def and_then_Inr Let_def sorted_paths_Nil)
    moreover have "\<not> prefix ?start ?m" by simp
    ultimately show ?thesis using other by blast
  qed
  have c7: "\<exists>m. find_run_summary fs7 date7 b7 = Inl (IOError m)
             \<and> m \<noteq> ?too_many \<and> \<not> prefix ?start m"
    if "\<not> exists fs7 (joinpath b7 (''monitoring/RunSummary/RunSummary_'' @ date7 @ ''.ecsv''))"
  proof -
    let ?m = "''Night summary file ''
        @ str_path (joinpath b7 (''monitoring/RunSummary/RunSummary_'' @ date7 @ ''.ecsv''))
        @ '' does not exist'' @ [CHR 0x0A]"
    have "find_run_summary fs7 date7 b7 = Inl (IOError ?m)"
      using that by (simp add: find_run_summary_def Let_def)
    moreover have "\<not> prefix ?start ?m" by simp
    ultimately show ?thesis using other by blast
  qed
  from amb start c1 c2 c3 c4 c5 c6 c7 show ?thesis by blast
qed

theorem ambiguous_match_differs_from_not_found_witness:
  "\<exists>too_many.
     find_pedestal_file example_fs ''v1'' None (Some ''20200102'') data = Inl (IOError too_many)
     \<and> prefix ''Too many pedestal files found'' too_many
     \<and> (\<exists>m. find_pedestal_file example_fs ''v1'' (Some 101) None data = Inl (IOError m)
           \<and> m \<noteq> too_many \<and> \<not> prefix ''Too many pedestal files found'' m)
     \<and> (\<exists>m. find_pedestal_file example_fs ''v1'' None (Some ''20200109'') data = Inl (IOError m)
           \<and> m \<noteq> too_many \<and> \<not> prefix ''Too many pedestal files found'' m)
     \<and> (\<exists>m. find_time_calibration_file example_fs run_from_name ''v3'' 107 None data
             = Inl (IOError m)
           \<and> m \<noteq> too_many \<and> \<not> prefix ''Too many pedestal files found'' m)
     \<and> (\<exists>m. find_time_calibration_file example_fs run_from_name ''v1'' 99 None data
             = Inl (IOError m)
           \<and> m \<noteq> too_many \<and> \<not> prefix ''Too many pedestal files found'' m)
     \<and> (\<exists>m. find_time_calibration_file example_fs run_from_name ''v1'' 107 (Some 101) data
             = Inl (IOError m)
           \<and> m \<noteq> too_many \<and> \<not> prefix ''Too many pedestal files found'' m)
     \<and> (\<exists>m. find_r0_subrun example_fs 101 0 (joinpath data ''R0'') = Inl (IOError m)
           \<and> m \<noteq> too_many \<and> \<not> prefix ''Too many pedestal files found'' m)
     \<and> (\<exists>m. find_run_summary example_fs ''20200102'' data = Inl (IOError m)
           \<and> m \<noteq> too_many \<and> \<not> prefix ''Too many pedestal files found'' m)"
proof -
  have h0: "glob example_fs (joinpath (joinpath (ped_dir data) ''20200102'') ''v1'')
      ''drs4_pedestal*.0000.h5''
      = Inr [baseline ''20200102'' ''v1'' ''drs4_pedestal.Run00106.0000.h5'',
             baseline ''20200102'' ''v1'' ''drs4_pedestal.Run00105.0000.h5'']"
    by code_simp
  have h0': "1 < length [baseline ''20200102'' ''v1'' ''drs4_pedestal.Run00106.0000.h5'',
             baseline ''20200102'' ''v1'' ''drs4_pedestal.Run00105.0000.h5'']"
    by simp
  have h1: "rglob example_fs (ped_dir data)
      (''v1'' @ ''/drs4_pedestal.Run'' @ format_0d 5 101 @ ''.0000.h5'') = Inr []"
    by code_simp
  have h2: "glob example_fs (joinpath (joinpath (ped_dir data) ''20200109'') ''v1'')
      ''drs4_pedestal*.0000.h5'' = Inr []"
    by code_simp
  have h3: "rglob example_fs (time_dir data) (''*/'' @ ''v3'' @ ''/time_calibration.Run*.0000.h5'')
      = Inr []"
    by code_simp
  have h4: "rglob example_fs (time_dir data) (''*/'' @ ''v1'' @ ''/time_calibration.Run*.0000.h5'')
        = Inr [sampling ''20200110'' ''v1'' ''time_calibration.Run00110.0000.h5'',
               sampling ''20200101'' ''v1'' ''time_calibration.Run00100.0000.h5'',
               sampling ''20200105'' ''v1'' ''time_calibration.Run00105.0000.h5'']
      \<and> [sampling ''20200110'' ''v1'' ''time_calibration.Run00110.0000.h5'',
               sampling ''20200101'' ''v1'' ''time_calibration.Run00100.0000.h5'',
               sampling ''20200105'' ''v1'' ''time_calibration.Run00105.0000.h5''] \<noteq> []
      \<and> last_time_file example_fs run_from_name 99 None
          (sorted_paths [sampling ''20200110'' ''v1'' ''time_calibration.Run00110.0000.h5'',
               sampling ''20200101'' ''v1'' ''time_calibration.Run00100.0000.h5'',
               sampling ''20200105'' ''v1'' ''time_calibration.Run00105.0000.h5'']) = Inr None"
    by code_simp
  have h5: "rglob example_fs (time_dir data)
      (''*/'' @ ''v1'' @ ''/time_calibration.Run'' @ format_0d 5 101 @ ''.0000.h5'') = Inr []"
    by code_simp
  have h6: "rglob example_fs (joinpath data ''R0'')
      (''LST-1.1.Run'' @ format_0d 5 101 @ ''.'' @ format_0d 4 0 @ ''*.fits.fz'') = Inr []"
    by code_simp
  have h7: "\<not> exists example_fs
      (joinpath data (''monitoring/RunSummary/RunSummary_'' @ ''20200102'' @ ''.ecsv''))"
    by code_simp
  note apart = ambiguous_match_differs_from_not_found [OF h0 h0',
      where ?fs1.0 = example_fs and ?pro1.0 = "''v1''" and ?r1.0 = 101 and ?d1.0 = None
        and ?b1.0 = data
        and ?fs2.0 = example_fs and ?pro2.0 = "''v1''" and ?date2.0 = "''20200109''"
        and ?b2.0 = data
        and ?fs3.0 = example_fs and ?parse3.0 = run_from_name and ?pro3.0 = "''v3''"
        and ?run3.0 = 107 and ?b3.0 = data
        and ?fs4.0 = example_fs and ?parse4.0 = run_from_name and ?pro4.0 = "''v1''"
        and ?run4.0 = 99 and ?b4.0 = data
        and ?matches4.0 = "[sampling ''20200110'' ''v1'' ''time_calibration.Run00110.0000.h5'',
               sampling ''20200101'' ''v1'' ''time_calibration.Run00100.0000.h5'',
               sampling ''20200105'' ''v1'' ''time_calibration.Run00105.0000.h5'']"
        and ?fs5.0 = example_fs and ?parse5.0 = run_from_name and ?pro5.0 = "''v1''"
        and ?run5.0 = 107 and ?t5.0 = 101 and ?b5.0 = data
        and ?fs6.0 = example_fs and ?run6.0 = 101 and ?sub_run6.0 = 0
        and r0_dir = "joinpath data ''R0''"
        and ?fs7.0 = example_fs and ?date7.0 = "''20200102''" and ?b7.0 = data]
  from apart h1 h2 h3 h4 h5 h6 h7 show ?thesis by blast
qed

section \<open>Path resolution\<close>

lemma no_links_append:
  "no_links ns d (xs @ ys) = (no_links ns d xs \<and> no_links ns (d @ xs) ys)"
  by (induction xs arbitrary: d) auto

lemma real_dirs_append:
  "real_dirs ns d (xs @ ys) = (real_dirs ns d xs \<and> real_dirs ns (d @ xs) ys)"
  by (induction xs arbitrary: d) auto

lemma real_dirs_no_links: "real_dirs ns d cs \<Longrightarrow> no_links ns d cs"
  by (induction cs arbitrary: d) (auto simp: is_link_def)

lemma no_links_butlast: "no_links ns [] d \<Longrightarrow> no_links ns [] (butlast d)"
proof (cases "d = []")
  case True
  then show ?thesis by simp
next
  case False
  assume "no_links ns [] d"
  then have "no_links ns [] (butlast d @ [last d])" using False by simp
  then show ?thesis unfolding no_links_append by simp
qed

lemma real_dirs_butlast: "real_dirs ns [] d \<Longrightarrow> real_dirs ns [] (butlast d)"
proof (cases "d = []")
  case True
  then show ?thesis by simp
next
  case False
  assume "real_dirs ns [] d"
  then have "real_dirs ns [] (butlast d @ [last d])" using False by simp
  then show ?thesis unfolding real_dirs_append by simp
qed

lemma no_links_snoc:
  "no_links ns [] d \<Longrightarrow> \<not> special c \<Longrightarrow> \<not> is_link (ns (d @ [c])) \<Longrightarrow> no_links ns [] (d @ [c])"
  by (simp add: no_links_append)

text \<open>A path without links and special components resolves to itself.\<close>

lemma realpath_no_links: "no_links ns d cs \<Longrightarrow> realpath ns d cs = Some (d @ cs)"
proof (induction cs arbitrary: d)
  case Nil
  then show ?case by (simp add: realpath_Nil)
next
  case (Cons c cs)
  from Cons.prems have c: "c \<noteq> []" "c \<noteq> ''.''" "c \<noteq> ''..''" "\<not> is_link (ns (d @ [c]))"
    and rest: "no_links ns (d @ [c]) cs"
    by (auto simp: special_def)
  from Cons.IH [OF rest] have "realpath ns (d @ [c]) cs = Some (d @ c # cs)" by simp
  with c show ?case
    by (auto simp: realpath_Cons is_link_def split: option.splits node.splits)
qed

lemma walk_real_dirs: "real_dirs ns d cs \<Longrightarrow> walk ns n d cs = Inr (d @ cs)"
proof (induction cs arbitrary: d)
  case Nil
  then show ?case by simp
next
  case (Cons c cs)
  from Cons.prems have c: "c \<noteq> []" "c \<noteq> ''.''" "c \<noteq> ''..''" "ns (d @ [c]) = Some Dir"
    and rest: "real_dirs ns (d @ [c]) cs"
    by (auto simp: special_def)
  from Cons.IH [OF rest] have "walk ns n (d @ [c]) cs = Inr (d @ c # cs)" by simp
  with c show ?case by simp
qed


lemma realpath_through_real_dirs:
  "real_dirs ns d xs \<Longrightarrow> realpath ns d (xs @ ys) = realpath ns (d @ xs) ys"
proof (induction xs arbitrary: d)
  case Nil
  then show ?case by simp
next
  case (Cons c cs)
  from Cons.prems have c: "c \<noteq> []" "c \<noteq> ''.''" "c \<noteq> ''..''" "ns (d @ [c]) = Some Dir"
    and rest: "real_dirs ns (d @ [c]) cs"
    by (auto simp: special_def)
  from Cons.IH [OF rest] c show ?case by (simp add: realpath_Cons)
qed

text \<open>What a resolution returns has no link and no special component in it.\<close>

lemma realpath_canonical_step:
  assumes "realpath ns d cs = Some q"
  shows "no_links ns [] d \<longrightarrow> no_links ns [] q"
  using assms
proof (induction rule: realpath.raw_induct [rotated 1, consumes 1, case_names step])
  case (step rp ns d cs q)
  show ?case
  proof
    assume nl: "no_links ns [] d"
    show "no_links ns [] q"
    proof (cases cs)
      case Nil
      with step.hyps nl show ?thesis by simp
    next
      case (Cons c rest)
      show ?thesis
      proof (cases "c = [] \<or> c = ''.''")
        case True
        with step.hyps Cons have "rp ns d rest = Some q" by simp
        from step.IH [OF this] nl show ?thesis by blast
      next
        case skip: False
        show ?thesis
        proof (cases "c = ''..''")
          case True
          with step.hyps Cons skip have "rp ns (butlast d) rest = Some q" by simp
          from step.IH [OF this] no_links_butlast [OF nl] show ?thesis by blast
        next
          case False
          then have sp: "\<not> special c" using skip by (simp add: special_def)
          show ?thesis
          proof (cases "is_link (ns (d @ [c]))")
            case True
            then obtain t where l: "ns (d @ [c]) = Some (Link t)"
              by (auto simp: is_link_def split: option.splits node.splits)
            with step.hyps Cons skip False
            have "rp ns (if anchored t then [] else d) (parts t @ rest) = Some q" by simp
            moreover have "no_links ns [] (if anchored t then [] else d)" using nl by simp
            ultimately show ?thesis using step.IH by blast
          next
            case other: False
            with step.hyps Cons skip False have "rp ns (d @ [c]) rest = Some q"
              by (auto simp: is_link_def split: option.splits node.splits)
            moreover have "no_links ns [] (d @ [c])" using nl sp other by (rule no_links_snoc)
            ultimately show ?thesis using step.IH by blast
          qed
        qed
      qed
    qed
  qed
qed

lemma realpath_canonical:
  "no_links ns [] d \<Longrightarrow> realpath ns d cs = Some q \<Longrightarrow> no_links ns [] q"
  using realpath_canonical_step by blast

text \<open>
  Where the kernel resolves a path, \<^verbatim>\<open>resolve()\<close> returns the same: it only goes
  on where the kernel gives up.
\<close>

lemma walk_realpath: "walk ns n d cs = Inr q \<Longrightarrow> realpath ns d cs = Some q"
proof (induction ns n d cs rule: walk.induct)
  case (1 ns n d)
  then show ?case by (simp add: realpath_Nil)
next
  case (2 ns n d c cs)
  show ?case
  proof (cases "c = [] \<or> c = ''.''")
    case True
    from "2.prems" True have w: "walk ns n d cs = Inr q" by simp
    from "2.IH"(1) [OF True w] True show ?thesis by (simp add: realpath_Cons)
  next
    case skip: False
    show ?thesis
    proof (cases "c = ''..''")
      case True
      from "2.prems" skip True have w: "walk ns n (butlast d) cs = Inr q" by simp
      from "2.IH"(2) [OF skip True w] skip True show ?thesis by (simp add: realpath_Cons)
    next
      case False
      show ?thesis
      proof (cases "ns (d @ [c])")
        case None
        with "2.prems" skip False show ?thesis by simp
      next
        case (Some x)
        show ?thesis
        proof (cases x)
          case File
          from "2.prems" skip False Some File have e: "\<not> cs \<noteq> []"
            by (cases "cs \<noteq> []") simp_all
          from "2.prems" skip False Some File e have w: "walk ns n (d @ [c]) cs = Inr q"
            by simp
          from "2.IH"(3) [OF skip False Some File e w] skip False Some File show ?thesis
            by (simp add: realpath_Cons)
        next
          case Dir
          from "2.prems" skip False Some Dir have w: "walk ns n (d @ [c]) cs = Inr q"
            by simp
          from "2.IH"(4) [OF skip False Some Dir w] skip False Some Dir show ?thesis
            by (simp add: realpath_Cons)
        next
          case (Link t)
          show ?thesis
          proof (cases n)
            case 0
            with "2.prems" skip False Some Link show ?thesis by simp
          next
            case (Suc m)
            from "2.prems" skip False Some Link Suc
            have w: "walk ns m (if anchored t then [] else d) (parts t @ cs) = Inr q"
              by simp
            have "realpath ns (if anchored t then [] else d) (parts t @ cs) = Some q"
              using "2.IH"(5) [OF skip False Some Link Suc w] .
            with skip False Some Link show ?thesis by (simp add: realpath_Cons)
          qed
        qed
      qed
    qed
  qed
qed

lemma walk_no_links_real_dirs:
  "no_links ns d cs \<Longrightarrow> walk ns n d cs = Inr q \<Longrightarrow> (cs \<noteq> [] \<longrightarrow> ns q = Some Dir)
     \<Longrightarrow> real_dirs ns d cs \<and> q = d @ cs"
proof (induction cs arbitrary: d)
  case Nil
  then show ?case by simp
next
  case (Cons c cs)
  from Cons.prems(1) have c: "c \<noteq> []" "c \<noteq> ''.''" "c \<noteq> ''..''" "\<not> is_link (ns (d @ [c]))"
    "\<not> special c" and rest: "no_links ns (d @ [c]) cs"
    by (auto simp: special_def)
  show ?case
  proof (cases "ns (d @ [c])")
    case None
    with Cons.prems(2) c show ?thesis by simp
  next
    case (Some x)
    show ?thesis
    proof (cases x)
      case File
      show ?thesis
      proof (cases "cs = []")
        case True
        with Cons.prems Some File c show ?thesis by simp
      next
        case False
        with Cons.prems Some File c show ?thesis by simp
      qed
    next
      case Dir
      from Cons.prems(2) Some Dir c have w: "walk ns n (d @ [c]) cs = Inr q" by simp
      have "cs \<noteq> [] \<longrightarrow> ns q = Some Dir" using Cons.prems(3) by simp
      from Cons.IH [OF rest w this] Some Dir c show ?thesis by simp
    next
      case (Link t)
      with Some c show ?thesis by (simp add: is_link_def)
    qed
  qed
qed


lemma pro_dir_eq:
  "joinpath (parent (PosixPath True od)) ''pro'' = PosixPath True (butlast od @ [''pro''])"
  by (simp add: joinpath_def parent_def parse_parts_def)


lemma real_dirs_last: "real_dirs ns d cs \<Longrightarrow> cs \<noteq> [] \<Longrightarrow> ns (d @ cs) = Some Dir"
proof (induction cs arbitrary: d)
  case Nil
  then show ?case by simp
next
  case (Cons c cs)
  show ?case
  proof (cases "cs = []")
    case True
    with Cons.prems show ?thesis by simp
  next
    case False
    from Cons.prems have "real_dirs ns (d @ [c]) cs" by simp
    from Cons.IH [OF this False] show ?thesis by simp
  qed
qed

lemma node_at_real_dirs: "real_dirs (nodes fs) [] od \<Longrightarrow> node_at fs od = Some Dir"
  using real_dirs_last [of "nodes fs" "[]" od] by (simp add: node_at_def)

text \<open>What a resolved path is.\<close>

lemma resolve_canonical:
  assumes "no_links (nodes fs) [] (cwd fs)" and "resolve fs p = Inr target"
  shows "\<exists>od. target = PosixPath True od \<and> no_links (nodes fs) [] od"
proof -
  from assms(2) obtain od where w: "realpath (nodes fs) (start_dir fs p) (parts p) = Some od"
    and t: "target = PosixPath True od"
    by (auto simp: resolve_def split: option.splits)
  have "no_links (nodes fs) [] (start_dir fs p)"
    using assms(1) by (simp add: start_dir_def)
  from realpath_canonical [OF this w] t show ?thesis by blast
qed

lemma is_dir_real_dirs:
  assumes "no_links (nodes fs) [] od" and "is_dir fs (PosixPath True od)"
  shows "real_dirs (nodes fs) [] od"
proof -
  from assms(2) obtain q where w: "walk (nodes fs) (maxlinks fs) [] od = Inr q"
    and d: "node_at fs q = Some Dir"
    by (auto simp: is_dir_def start_dir_def split: sum.splits)
  from walk_realpath [OF w] realpath_no_links [OF assms(1)] have q: "q = od"
    by simp
  from d q have "od \<noteq> [] \<longrightarrow> nodes fs q = Some Dir" by (auto simp: node_at_def)
  from walk_no_links_real_dirs [OF assms(1) w this] show ?thesis by simp
qed

lemma resolve_no_links:
  "no_links (nodes fs) [] od \<Longrightarrow> resolve fs (PosixPath True od) = Inr (PosixPath True od)"
  by (simp add: resolve_def start_dir_def realpath_no_links)



text \<open>The entry of the pro link beside an existing directory.\<close>

lemma entry_of_pro:
  assumes "real_dirs (nodes fs) [] od"
  shows "entry_of fs (PosixPath True (butlast od @ [''pro''])) = Inr (butlast od @ [''pro''])"
proof -
  have b: "real_dirs (nodes fs) [] (butlast od)" using assms by (rule real_dirs_butlast)
  have w: "walk (nodes fs) (maxlinks fs) [] (butlast od) = Inr (butlast od)"
    using walk_real_dirs [OF b] by simp
  have d: "node_at fs (butlast od) = Some Dir" using b by (rule node_at_real_dirs)
  show ?thesis
    by (simp add: entry_of_def start_dir_def w d)
qed


lemma realpath_pro:
  assumes "real_dirs ns [] od"
  shows "realpath ns [] (butlast od @ [''pro'']) =
           (case ns (butlast od @ [''pro'']) of
              Some (Link t) \<Rightarrow> realpath ns (if anchored t then [] else butlast od) (parts t)
            | _ \<Rightarrow> Some (butlast od @ [''pro'']))"
proof -
  have b: "real_dirs ns [] (butlast od)" using assms by (rule real_dirs_butlast)
  have "realpath ns [] (butlast od @ [''pro'']) = realpath ns (butlast od) [''pro'']"
    using realpath_through_real_dirs [OF b] by simp
  then show ?thesis
    by (simp add: realpath_Cons realpath_Nil split: option.splits node.splits)
qed


lemma symlink_to_pro:
  assumes "real_dirs (nodes fs) [] od"
  shows "symlink_to fs (PosixPath True (butlast od @ [''pro''])) target =
           (case nodes fs (butlast od @ [''pro'']) of
              Some _ \<Rightarrow> Inl (FileExistsError (PosixPath True (butlast od @ [''pro''])))
            | None \<Rightarrow>
                Inr (fs\<lparr>nodes := (nodes fs)(butlast od @ [''pro''] \<mapsto> Link target),
                        journal := journal fs @ [Symlink (butlast od @ [''pro'']) target]\<rparr>))"
  by (simp add: symlink_to_def entry_of_pro [OF assms] and_then_def node_at_def
      split: option.splits)

text \<open>The body of \<^verbatim>\<open>create_pro_symlink\<close> once the output directory is resolved.\<close>

lemma create_pro_symlink_resolved:
  assumes "expanduser fs p0 = Inr p1" and "resolve fs p1 = Inr (PosixPath True od)"
    and "no_links (nodes fs) [] od"
  shows "create_pro_symlink fs p0 =
           and_then
             (if exists fs (PosixPath True (butlast od @ [''pro'']))
              then and_then (resolve fs (PosixPath True (butlast od @ [''pro''])))
                     (\<lambda>a. if a \<noteq> PosixPath True od
                          then unlink fs (PosixPath True (butlast od @ [''pro''])) else Inr fs)
              else Inr fs)
             (\<lambda>fs1. if \<not> exists fs1 (PosixPath True (butlast od @ [''pro'']))
                    then symlink_to fs1 (PosixPath True (butlast od @ [''pro''])) (PosixPath True od)
                    else Inr fs1)"
  unfolding create_pro_symlink_def assms(1) and_then_Inr assms(2) Let_def pro_dir_eq
    resolve_no_links [OF assms(3)]
  by (rule refl)

section \<open>The cases of \<^verbatim>\<open>create_pro_symlink\<close>\<close>




lemma promote_current:
  assumes "expanduser fs p0 = Inr p1" and "resolve fs p1 = Inr (PosixPath True od)"
    and "no_links (nodes fs) [] od"
    and "exists fs (PosixPath True (butlast od @ [''pro'']))"
    and "resolve fs (PosixPath True (butlast od @ [''pro''])) = Inr (PosixPath True od)"
  shows "create_pro_symlink fs p0 = Inr fs"
  unfolding create_pro_symlink_resolved [OF assms(1,2,3)]
  by (simp add: assms(4,5) and_then_Inr)


lemma promote_dangling:
  assumes "expanduser fs p0 = Inr p1" and "resolve fs p1 = Inr (PosixPath True od)"
    and "real_dirs (nodes fs) [] od"
    and "nodes fs (butlast od @ [''pro'']) = Some (Link t)"
    and "\<not> exists fs (PosixPath True (butlast od @ [''pro'']))"
  shows "create_pro_symlink fs p0 = Inl (FileExistsError (PosixPath True (butlast od @ [''pro''])))"
  unfolding create_pro_symlink_resolved [OF assms(1,2) real_dirs_no_links [OF assms(3)]]
  by (simp add: assms(5) and_then_Inr symlink_to_pro [OF assms(3)] assms(4))








text \<open>An existing directory that a path resolves to.\<close>

lemma existing_directory:
  assumes "real_dirs (nodes fs) [] (cwd fs)" and "resolve fs p = Inr target" and "is_dir fs target"
  shows "\<exists>od. target = PosixPath True od \<and> real_dirs (nodes fs) [] od"
proof -
  from resolve_canonical [OF real_dirs_no_links [OF assms(1)] assms(2)]
  obtain od where t: "target = PosixPath True od" and n: "no_links (nodes fs) [] od" by blast
  from is_dir_real_dirs [OF n] assms(3) t show ?thesis by blast
qed


section \<open>A pro link that is current\<close>

text \<open>
  C7: whether the pro link is stale is decided on resolved paths. When \<^verbatim>\<open>pro\<close>
  exists and resolves to the resolved output directory, however the link and the
  argument are written (through other links, relative, with \<^verbatim>\<open>.\<close> components or a
  trailing slash), the call returns the state as it was: nothing is removed and
  nothing is created.
\<close>

theorem create_pro_symlink_keeps_current_link:
  assumes "real_dirs (nodes fs) [] (cwd fs)"
    and "expanduser fs target_dir = Inr expanded" and "resolve fs expanded = Inr output_dir"
    and "exists fs (joinpath (parent output_dir) ''pro'')"
    and "resolve fs (joinpath (parent output_dir) ''pro'') = Inr output_dir"
  shows "create_pro_symlink fs target_dir = Inr fs"
proof -
  from resolve_canonical [OF real_dirs_no_links [OF assms(1)] assms(3)]
  obtain od where t: "output_dir = PosixPath True od" and n: "no_links (nodes fs) [] od"
    by blast
  show ?thesis
    using promote_current [OF assms(2) assms(3) [unfolded t] n] assms(4,5)
    unfolding t pro_dir_eq by simp
qed

text \<open>
  In the example \<^verbatim>\<open>/data/out/pro\<close> is written \<^verbatim>\<open>/data/out/./latest\<close>, and
  \<^verbatim>\<open>latest\<close> is written \<^verbatim>\<open>v1/\<close>.
\<close>

theorem create_pro_symlink_keeps_current_link_witness:
  "nodes output_tree [''data'', ''out'', ''pro'']
     = Some (Link (PosixPath True [''data'', ''out'', ''.'', ''latest'']))
   \<and> nodes output_tree [''data'', ''out'', ''latest''] = Some (Link (PosixPath False [''v1'', []]))
   \<and> create_pro_symlink output_tree (PosixPath True [''data'', ''out'', ''v1'']) = Inr output_tree
   \<and> create_pro_symlink output_tree (PosixPath False [''..'', ''out'', ''v1'']) = Inr output_tree"
proof -
  let ?v1 = "PosixPath True [''data'', ''out'', ''v1'']"
  let ?rel = "PosixPath False [''..'', ''out'', ''v1'']"
  have w: "real_dirs (nodes output_tree) [] (cwd output_tree)" by code_simp
  have e1: "expanduser output_tree ?v1 = Inr ?v1" by code_simp
  have e2: "expanduser output_tree ?rel = Inr ?rel" by code_simp
  have r1: "resolve output_tree ?v1 = Inr ?v1" by code_simp
  have r2: "resolve output_tree ?rel = Inr ?v1" by code_simp
  have x: "exists output_tree (joinpath (parent ?v1) ''pro'')" by code_simp
  have p: "resolve output_tree (joinpath (parent ?v1) ''pro'') = Inr ?v1" by code_simp
  have l1: "nodes output_tree [''data'', ''out'', ''pro'']
     = Some (Link (PosixPath True [''data'', ''out'', ''.'', ''latest'']))" by code_simp
  have l2: "nodes output_tree [''data'', ''out'', ''latest'']
     = Some (Link (PosixPath False [''v1'', []]))" by code_simp
  from l1 l2 create_pro_symlink_keeps_current_link [OF w e1 r1 x p]
    create_pro_symlink_keeps_current_link [OF w e2 r2 x p]
  show ?thesis by blast
qed

section \<open>A pro link that dangles\<close>

text \<open>
  C9: when \<^verbatim>\<open>pro\<close> is a link that leads nowhere, \<^verbatim>\<open>exists()\<close> answers no, so
  the link is not unlinked, and \<^verbatim>\<open>symlink_to\<close> then fails because the name is taken:
  the call on an existing directory raises \<^verbatim>\<open>FileExistsError\<close>.
\<close>

theorem create_pro_symlink_dangling_link:
  assumes "real_dirs (nodes fs) [] (cwd fs)"
    and "expanduser fs target_dir = Inr expanded" and "resolve fs expanded = Inr output_dir"
    and "is_dir fs output_dir"
    and "nodes fs (parts (joinpath (parent output_dir) ''pro'')) = Some (Link t)"
    and "\<not> exists fs (joinpath (parent output_dir) ''pro'')"
  shows "create_pro_symlink fs target_dir = Inl (FileExistsError (joinpath (parent output_dir) ''pro''))"
proof -
  from existing_directory [OF assms(1,3,4)]
  obtain od where t: "output_dir = PosixPath True od" and r: "real_dirs (nodes fs) [] od"
    by blast
  have l: "nodes fs (butlast od @ [''pro'']) = Some (Link t)"
    using assms(5) unfolding t pro_dir_eq by simp
  have x: "\<not> exists fs (PosixPath True (butlast od @ [''pro'']))"
    using assms(6) unfolding t pro_dir_eq .
  show ?thesis
    using promote_dangling [OF assms(2) assms(3) [unfolded t] r l x]
    unfolding t pro_dir_eq .
qed

theorem create_pro_symlink_dangling_link_witness:
  "nodes output_tree [''data'', ''old'', ''pro'']
     = Some (Link (PosixPath True [''data'', ''old'', ''v0'']))
   \<and> nodes output_tree [''data'', ''old'', ''v0''] = None
   \<and> create_pro_symlink output_tree (PosixPath True [''data'', ''old'', ''v1''])
       = Inl (FileExistsError (PosixPath True [''data'', ''old'', ''pro'']))"
proof -
  let ?v1 = "PosixPath True [''data'', ''old'', ''v1'']"
  have w: "real_dirs (nodes output_tree) [] (cwd output_tree)" by code_simp
  have e: "expanduser output_tree ?v1 = Inr ?v1" by code_simp
  have r: "resolve output_tree ?v1 = Inr ?v1" by code_simp
  have d: "is_dir output_tree ?v1" by code_simp
  have l: "nodes output_tree (parts (joinpath (parent ?v1) ''pro''))
     = Some (Link (PosixPath True [''data'', ''old'', ''v0'']))" by code_simp
  have x: "\<not> exists output_tree (joinpath (parent ?v1) ''pro'')" by code_simp
  have g: "nodes output_tree [''data'', ''old'', ''v0''] = None" by code_simp
  have l': "nodes output_tree [''data'', ''old'', ''pro'']
     = Some (Link (PosixPath True [''data'', ''old'', ''v0'']))" by code_simp
  have j: "joinpath (parent ?v1) ''pro'' = PosixPath True [''data'', ''old'', ''pro'']"
    by code_simp
  from l' g create_pro_symlink_dangling_link [OF w e r d l x]
  show ?thesis unfolding j by blast
qed

section \<open>Promoting twice\<close>




section \<open>Promoting a sibling\<close>




end
